theory Spec2Isabelle
  imports Main "HOL-Library.Word" "HOL-Library.Signed_Division"
begin

unbundle bit_operations_syntax

section \<open>Sony IMX290 sensor driver (drivers/media/i2c/imx290.c)\<close>

text \<open>
  A shallow embedding of the register-sequence engine and the control plane of the driver.
  C integers keep their width (\<open>u8\<close>, \<open>u16\<close>, \<open>u32\<close>, \<open>u64\<close> are words that wrap),
  return codes are \<open>int\<close> (0 is success, a negative errno is a failure), the device
  structure is a record that every operation takes and returns, and a kernel fault
  (NULL dereference, read past a table, division by zero) is the value \<open>None\<close>.
\<close>

type_synonym u8 = "8 word"
type_synonym u16 = "16 word"
type_synonym u32 = "32 word"
type_synonym u64 = "64 word"

subsection \<open>Condition bits and runtime configuration\<close>

definition COND_25_FPS :: u8 where "COND_25_FPS = 0x01"
definition COND_30_FPS :: u8 where "COND_30_FPS = 0x02"
definition COND_50_FPS :: u8 where "COND_50_FPS = 0x04"
definition COND_60_FPS :: u8 where "COND_60_FPS = 0x08"
definition COND_25_30_FPS :: u8 where "COND_25_30_FPS = COND_25_FPS OR COND_30_FPS"
definition COND_50_60_FPS :: u8 where "COND_50_60_FPS = COND_50_FPS OR COND_60_FPS"
definition COND_FPS_msk :: u8 where
  "COND_FPS_msk = COND_25_FPS OR COND_30_FPS OR COND_50_FPS OR COND_60_FPS"
definition COND_2_LANES :: u8 where "COND_2_LANES = 0x10"
definition COND_4_LANES :: u8 where "COND_4_LANES = 0x20"
definition COND_LANES_msk :: u8 where "COND_LANES_msk = COND_2_LANES OR COND_4_LANES"
definition COND_INCK_37 :: u8 where "COND_INCK_37 = 0x40"
definition COND_INCK_74 :: u8 where "COND_INCK_74 = 0x80"
definition COND_INCK_msk :: u8 where "COND_INCK_msk = COND_INCK_37 OR COND_INCK_74"

datatype imx290_fps = FPS_25 | FPS_30 | FPS_50 | FPS_60

datatype imx290_inck = INCK_37 | INCK_74

text \<open>\<open>struct imx290_regval\<close>: one row of a register table.\<close>

record imx290_regval =
  reg :: u16
  val :: u8
  cond :: u8

text \<open>
  \<open>struct imx290_mode\<close>. The fields \<open>data\<close> and \<open>data_size\<close> (the register table of the
  mode) are read by \<open>imx290_start_streaming\<close> only, which is not part of this model, and
  are left out.
\<close>

record imx290_mode =
  width :: u32
  height :: u32
  link_freq_index :: u8

text \<open>\<open>struct v4l2_mbus_framefmt\<close>, the fields the driver writes.\<close>

record v4l2_mbus_framefmt =
  fmt_width :: u32
  fmt_height :: u32
  fmt_code :: u32
  fmt_field :: u32
  fmt_colorspace :: u32

text \<open>
  \<open>struct imx290\<close>. The two control pointers \<open>link_freq\<close> and \<open>pixel_rate\<close> are \<open>None\<close> while
  NULL and otherwise hold the value last pushed into the control; \<open>regmap\<close> is the trace
  of the writes issued on the register bus so far, oldest first; \<open>try_format\<close> stands for
  the pad configuration's try format that \<open>v4l2_subdev_get_try_format\<close> points to.
\<close>

record imx290 =
  nlanes :: u8
  bpp :: u8
  fps :: imx290_fps
  inck :: imx290_inck
  current_format :: v4l2_mbus_framefmt
  try_format :: v4l2_mbus_framefmt
  current_mode :: "imx290_mode option"
  link_freq :: "u32 option"
  pixel_rate :: "u64 option"
  reg_3007 :: u8
  vmax :: u32
  regmap :: "(u16 \<times> u8) list"

subsection \<open>Condition evaluator\<close>

text \<open>
  \<open>imx290_settings_match\<close>, lines 661-714. The \<open>default\<close> branches of the switches on
  \<open>fps\<close> and \<open>inck\<close> have no value to take in an enumeration of four and two constants;
  the one on \<open>nlanes\<close> is kept.
\<close>

definition imx290_settings_match :: "imx290 \<Rightarrow> u8 \<Rightarrow> bool" where
  "imx290_settings_match imx cnd =
    (let reject0 = False;
         reject1 =
           (if cnd AND COND_FPS_msk \<noteq> 0 then
              (case fps imx of
                 FPS_25 \<Rightarrow> reject0 \<or> \<not> (cnd AND COND_25_FPS \<noteq> 0)
               | FPS_30 \<Rightarrow> reject0 \<or> \<not> (cnd AND COND_30_FPS \<noteq> 0)
               | FPS_50 \<Rightarrow> reject0 \<or> \<not> (cnd AND COND_50_FPS \<noteq> 0)
               | FPS_60 \<Rightarrow> reject0 \<or> \<not> (cnd AND COND_60_FPS \<noteq> 0))
            else reject0);
         reject2 =
           (if cnd AND COND_LANES_msk \<noteq> 0 then
              (if nlanes imx = 2 then reject1 \<or> \<not> (cnd AND COND_2_LANES \<noteq> 0)
               else if nlanes imx = 4 then reject1 \<or> \<not> (cnd AND COND_4_LANES \<noteq> 0)
               else True)
            else reject1);
         reject3 =
           (if cnd AND COND_INCK_msk \<noteq> 0 then
              (case inck imx of
                 INCK_37 \<Rightarrow> reject2 \<or> \<not> (cnd AND COND_INCK_74 \<noteq> 0)
               | INCK_74 \<Rightarrow> reject2 \<or> \<not> (cnd AND COND_INCK_37 \<noteq> 0))
            else reject2)
     in \<not> reject3)"

subsection \<open>Register bus\<close>

text \<open>
  The register bus (\<open>regmap_write\<close>) is outside the driver. It is a parameter: given the
  writes issued so far, the address and the byte, it answers the return code of the
  write, 0 on success and a negative errno on failure.
\<close>

type_synonym regmap_bus = "(u16 \<times> u8) list \<Rightarrow> u16 \<Rightarrow> u8 \<Rightarrow> int"

definition IMX290_REGHOLD :: u16 where "IMX290_REGHOLD = 0x3001"
definition IMX290_BLKLEVEL_LOW :: u16 where "IMX290_BLKLEVEL_LOW = 0x300a"
definition IMX290_BLKLEVEL_HIGH :: u16 where "IMX290_BLKLEVEL_HIGH = 0x300b"
definition IMX290_GAIN :: u16 where "IMX290_GAIN = 0x3014"
definition IMX290_PGCTRL :: u16 where "IMX290_PGCTRL = 0x308c"
definition IMX290_PGCTRL_REGEN :: u32 where "IMX290_PGCTRL_REGEN = 0x01"
definition IMX290_PGCTRL_THRU :: u32 where "IMX290_PGCTRL_THRU = 0x02"
definition IMX290_PGCTRL_MODE :: "u32 \<Rightarrow> u32" where "IMX290_PGCTRL_MODE n = push_bit 4 n"

definition EINVAL :: int where "EINVAL = 22"

text \<open>
  \<open>imx290_write_reg\<close>, lines 648-659: the write is issued, logged on failure, and its
  return code handed back on both paths.
\<close>

definition imx290_write_reg :: "regmap_bus \<Rightarrow> imx290 \<Rightarrow> u16 \<Rightarrow> u8 \<Rightarrow> int \<times> imx290" where
  "imx290_write_reg bus imx addr v =
    (let ret = bus (regmap imx) addr v;
         imx' = imx\<lparr>regmap := regmap imx @ [(addr, v)]\<rparr>
     in if ret \<noteq> 0 then (ret, imx') else (ret, imx'))"

subsection \<open>Sequence applier\<close>

text \<open>
  \<open>imx290_set_register_array\<close>, lines 716-736. The table is the list of its
  \<open>num_settings\<close> rows; the settle delay after the loop has no effect on the state.
\<close>

fun imx290_set_register_array ::
  "regmap_bus \<Rightarrow> imx290 \<Rightarrow> imx290_regval list \<Rightarrow> int \<times> imx290" where
  "imx290_set_register_array bus imx [] = (0, imx)"
| "imx290_set_register_array bus imx (r # settings) =
    (if \<not> imx290_settings_match imx (cond r) then imx290_set_register_array bus imx settings
     else (case imx290_write_reg bus imx (reg r) (val r) of
             (ret, imx') \<Rightarrow>
               if ret < 0 then (ret, imx')
               else imx290_set_register_array bus imx' settings))"

text \<open>
  \<open>imx290_write_buffered_reg\<close>, lines 738-766. \<open>write_buffered_regs\<close> is its inner loop,
  with the counter \<open>i\<close> and the number of registers still to write. In C the shift
  \<open>value >> (i * 8)\<close> is undefined from \<open>i = 4\<close> on; the driver calls the function with
  \<open>nr_regs = 1\<close> only.
\<close>

fun write_buffered_regs ::
  "regmap_bus \<Rightarrow> imx290 \<Rightarrow> u16 \<Rightarrow> u32 \<Rightarrow> nat \<Rightarrow> nat \<Rightarrow> int \<times> imx290" where
  "write_buffered_regs bus imx address_low v i 0 = (0, imx)"
| "write_buffered_regs bus imx address_low v i (Suc n) =
    (case imx290_write_reg bus imx (address_low + of_nat i) (ucast (drop_bit (i * 8) v)) of
       (ret, imx') \<Rightarrow>
         if ret \<noteq> 0 then (ret, imx')
         else write_buffered_regs bus imx' address_low v (Suc i) n)"

definition imx290_write_buffered_reg ::
  "regmap_bus \<Rightarrow> imx290 \<Rightarrow> u16 \<Rightarrow> u8 \<Rightarrow> u32 \<Rightarrow> int \<times> imx290" where
  "imx290_write_buffered_reg bus imx address_low nr_regs v =
    (case imx290_write_reg bus imx IMX290_REGHOLD 0x01 of
       (ret1, imx1) \<Rightarrow>
         if ret1 \<noteq> 0 then (ret1, imx1)
         else (case write_buffered_regs bus imx1 address_low v 0 (unat nr_regs) of
                 (ret2, imx2) \<Rightarrow>
                   if ret2 \<noteq> 0 then (ret2, imx2)
                   else imx290_write_reg bus imx2 IMX290_REGHOLD 0x00))"

text \<open>\<open>imx290_set_gain\<close>, lines 768-777.\<close>

definition imx290_set_gain :: "regmap_bus \<Rightarrow> imx290 \<Rightarrow> u32 \<Rightarrow> int \<times> imx290" where
  "imx290_set_gain bus imx v = imx290_write_buffered_reg bus imx IMX290_GAIN 1 v"

subsection \<open>Controls\<close>

datatype v4l2_cid =
    V4L2_CID_GAIN
  | V4L2_CID_TEST_PATTERN
  | V4L2_CID_EXPOSURE
  | V4L2_CID_VFLIP
  | V4L2_CID_HFLIP
  | V4L2_CID_IMX290_CG_SWITCH
  | V4L2_CID_LINK_FREQ
  | V4L2_CID_PIXEL_RATE
  | V4L2_CID_OTHER u32

text \<open>
  \<open>struct v4l2_ctrl\<close>, the fields the driver reads: \<open>id\<close>, \<open>val\<close> (an \<open>s32\<close>, held as its
  32 bits) and \<open>maximum\<close> (an \<open>s64\<close>, held as its 64 bits and read with \<open>sint\<close>).
\<close>

record v4l2_ctrl =
  ctrl_id :: v4l2_cid
  ctrl_val :: u32
  maximum :: u64

text \<open>
  The value of \<open>val\<close> at line 828 of \<open>imx290_set_exposure\<close>, from \<open>vmax\<close>, \<open>ctrl->val\<close> and
  \<open>ctrl->maximum\<close>: lines 811 and 822-828. The product is an \<open>unsigned int\<close> and wraps;
  the division is the truncating division of \<open>s64\<close>, its result cut to 32 bits. Division
  by zero is checked by the caller below.
\<close>

definition imx290_exposure_val :: "u32 \<Rightarrow> u32 \<Rightarrow> u64 \<Rightarrow> u32" where
  "imx290_exposure_val vm cv mx =
    (let v0 = cv;
         v1 = v0 * (vm - 2);
         v2 = (word_of_int (uint v1 sdiv sint mx) :: u32);
         v3 = (if v2 = 0 then 1 else v2)
     in vm - 2 - v3)"

text \<open>\<open>imx290_set_exposure\<close>, lines 809-841. \<open>None\<close> is the division by zero.\<close>

definition imx290_set_exposure ::
  "regmap_bus \<Rightarrow> imx290 \<Rightarrow> v4l2_ctrl \<Rightarrow> (int \<times> imx290) option" where
  "imx290_set_exposure bus imx ctrl =
    (if vmax imx = 0 then Some (0, imx)
     else if maximum ctrl = 0 then None
     else
       (let v = imx290_exposure_val (vmax imx) (ctrl_val ctrl) (maximum ctrl)
        in Some (imx290_set_register_array bus imx
             [\<lparr>reg = 0x3001, val = 0x01, cond = 0\<rparr>,
              \<lparr>reg = 0x3020, val = ucast (drop_bit 0 v AND 0xff), cond = 0\<rparr>,
              \<lparr>reg = 0x3021, val = ucast (drop_bit 8 v AND 0xff), cond = 0\<rparr>,
              \<lparr>reg = 0x3022, val = ucast (drop_bit 16 v AND 0x01), cond = 0\<rparr>,
              \<lparr>reg = 0x3001, val = 0x00, cond = 0\<rparr>])))"

text \<open>
  \<open>imx290_set_flip\<close>, lines 843-879. The mutex serialises callers and has no effect in a
  sequential model.
\<close>

definition imx290_set_flip :: "regmap_bus \<Rightarrow> imx290 \<Rightarrow> v4l2_ctrl \<Rightarrow> int \<times> imx290" where
  "imx290_set_flip bus imx ctrl =
    (let msk = (if ctrl_id ctrl = V4L2_CID_HFLIP then 0x02 else 0x01 :: u8);
         r3007 = (if ctrl_val ctrl \<noteq> 0 then reg_3007 imx OR msk
                  else reg_3007 imx AND NOT msk)
     in (case imx290_set_register_array bus imx
               [\<lparr>reg = 0x3001, val = 0x01, cond = 0\<rparr>,
                \<lparr>reg = 0x3007, val = r3007, cond = 0\<rparr>,
                \<lparr>reg = 0x3001, val = 0x00, cond = 0\<rparr>] of
           (rc, imx') \<Rightarrow>
             if rc < 0 then (rc, imx')
             else (0, imx'\<lparr>reg_3007 := r3007\<rparr>)))"

text \<open>
  \<open>imx290_set_ctrl\<close>, lines 881-953. \<open>in_use\<close> is what \<open>pm_runtime_get_if_in_use\<close> answers:
  0 when the device is not powered. In the test-pattern branch the return codes of
  \<open>imx290_write_reg\<close> are dropped, as in the source, and \<open>ret\<close> keeps its initial 0.
\<close>

definition imx290_set_ctrl ::
  "regmap_bus \<Rightarrow> int \<Rightarrow> imx290 \<Rightarrow> v4l2_ctrl \<Rightarrow> (int \<times> imx290) option" where
  "imx290_set_ctrl bus in_use imx ctrl =
    (if in_use = 0 then Some (0, imx)
     else
       (case ctrl_id ctrl of
          V4L2_CID_GAIN \<Rightarrow> Some (imx290_set_gain bus imx (ctrl_val ctrl))
        | V4L2_CID_TEST_PATTERN \<Rightarrow>
            (if ctrl_val ctrl \<noteq> 0 then
               (let imx1 = snd (imx290_write_reg bus imx IMX290_BLKLEVEL_LOW 0x00);
                    imx2 = snd (imx290_write_reg bus imx1 IMX290_BLKLEVEL_HIGH 0x00);
                    imx3 = snd (imx290_write_reg bus imx2 IMX290_PGCTRL
                             (ucast (IMX290_PGCTRL_REGEN OR IMX290_PGCTRL_THRU OR
                                     IMX290_PGCTRL_MODE (ctrl_val ctrl))))
                in Some (0, imx3))
             else
               (let imx1 = snd (imx290_write_reg bus imx IMX290_PGCTRL 0x00);
                    imx2 = (if bpp imx = 10
                            then snd (imx290_write_reg bus imx1 IMX290_BLKLEVEL_LOW 0x3c)
                            else snd (imx290_write_reg bus imx1 IMX290_BLKLEVEL_LOW 0xf0));
                    imx3 = snd (imx290_write_reg bus imx2 IMX290_BLKLEVEL_HIGH 0x00)
                in Some (0, imx3)))
        | V4L2_CID_EXPOSURE \<Rightarrow> imx290_set_exposure bus imx ctrl
        | V4L2_CID_VFLIP \<Rightarrow> Some (imx290_set_flip bus imx ctrl)
        | V4L2_CID_HFLIP \<Rightarrow> Some (imx290_set_flip bus imx ctrl)
        | V4L2_CID_IMX290_CG_SWITCH \<Rightarrow>
            (let v = (if ctrl_val ctrl = 0 then 0 else 0x10 :: u8)
             in Some (imx290_set_register_array bus imx
                  [\<lparr>reg = 0x3001, val = 0x01, cond = 0\<rparr>,
                   \<lparr>reg = 0x3009, val = 0x01 OR v, cond = COND_50_60_FPS\<rparr>,
                   \<lparr>reg = 0x3009, val = 0x02 OR v, cond = COND_25_30_FPS\<rparr>,
                   \<lparr>reg = 0x3001, val = 0x00, cond = 0\<rparr>]))
        | V4L2_CID_LINK_FREQ \<Rightarrow> Some (0, imx)
        | V4L2_CID_PIXEL_RATE \<Rightarrow> Some (0, imx)
        | V4L2_CID_OTHER _ \<Rightarrow> Some (- EINVAL, imx)))"

subsection \<open>Frame interval\<close>

text \<open>\<open>struct v4l2_fract\<close>.\<close>

record v4l2_fract =
  numerator :: u32
  denominator :: u32

text \<open>\<open>imx290_intervals\<close>, lines 999-1004, indexed by the frame-rate class.\<close>

fun imx290_intervals :: "imx290_fps \<Rightarrow> v4l2_fract" where
  "imx290_intervals FPS_25 = \<lparr>numerator = 1, denominator = 25\<rparr>"
| "imx290_intervals FPS_30 = \<lparr>numerator = 1, denominator = 30\<rparr>"
| "imx290_intervals FPS_50 = \<lparr>numerator = 1, denominator = 50\<rparr>"
| "imx290_intervals FPS_60 = \<lparr>numerator = 1, denominator = 60\<rparr>"

text \<open>
  The loop of \<open>mipi_csis_s_frame_interval\<close>, lines 1055-1061, over the indices still to
  visit; \<open>match\<close> is the value the variable holds when the loop is entered. \<open>a\<close> and \<open>b\<close>
  are \<open>unsigned long\<close>, 64 bits wide on the 64-bit targets of this tree.
\<close>

fun frame_interval_loop :: "u64 \<Rightarrow> u64 \<Rightarrow> imx290_fps \<Rightarrow> imx290_fps list \<Rightarrow> imx290_fps" where
  "frame_interval_loop a b match [] = match"
| "frame_interval_loop a b match (i # rest) =
    (if a * ucast (denominator (imx290_intervals i)) \<ge> b * ucast (numerator (imx290_intervals i))
     then i
     else frame_interval_loop a b i rest)"

text \<open>
  \<open>mipi_csis_s_frame_interval\<close>, lines 1045-1067: the return code, the device and the
  interval handed back to the caller.
\<close>

definition mipi_csis_s_frame_interval ::
  "imx290 \<Rightarrow> v4l2_fract \<Rightarrow> int \<times> imx290 \<times> v4l2_fract" where
  "mipi_csis_s_frame_interval imx interval =
    (let a = (ucast (numerator interval) :: u64);
         b = (ucast (denominator interval) :: u64);
         match = frame_interval_loop a b FPS_25 [FPS_25, FPS_30, FPS_50, FPS_60]
     in (0, imx\<lparr>fps := match\<rparr>, imx290_intervals match))"

subsection \<open>Modes, link frequencies and pixel rate\<close>

text \<open>
  The two media bus codes, the field order and the colorspace are constants of the
  kernel's uapi headers (\<open>media-bus-format.h\<close>, \<open>videodev2.h\<close>), given here with the values
  they have there.
\<close>

definition MEDIA_BUS_FMT_SRGGB10_1X10 :: u32 where "MEDIA_BUS_FMT_SRGGB10_1X10 = 0x300f"
definition MEDIA_BUS_FMT_SRGGB12_1X12 :: u32 where "MEDIA_BUS_FMT_SRGGB12_1X12 = 0x3012"
definition V4L2_FIELD_NONE :: u32 where "V4L2_FIELD_NONE = 1"
definition V4L2_COLORSPACE_SRGB :: u32 where "V4L2_COLORSPACE_SRGB = 8"

text \<open>\<open>struct imx290_pixfmt\<close> and \<open>imx290_formats\<close>, lines 126-139.\<close>

record imx290_pixfmt =
  code :: u32
  pix_bpp :: u8

definition imx290_formats :: "imx290_pixfmt list" where
  "imx290_formats =
    [\<lparr>code = MEDIA_BUS_FMT_SRGGB10_1X10, pix_bpp = 10\<rparr>,
     \<lparr>code = MEDIA_BUS_FMT_SRGGB12_1X12, pix_bpp = 12\<rparr>]"

definition FREQ_INDEX_1080P :: u8 where "FREQ_INDEX_1080P = 0"
definition FREQ_INDEX_720P :: u8 where "FREQ_INDEX_720P = 1"

text \<open>The link frequency tables, lines 528-544 (\<open>s64\<close>, held as 64 bits).\<close>

definition imx290_link_freq_2lanes_37mhz :: "u64 list" where
  "imx290_link_freq_2lanes_37mhz = [445500000, 297000000]"
definition imx290_link_freq_4lanes_37mhz :: "u64 list" where
  "imx290_link_freq_4lanes_37mhz = [222750000, 148500000]"
definition imx290_link_freq_2lanes_74mhz :: "u64 list" where
  "imx290_link_freq_2lanes_74mhz = [891000000, 594000000]"
definition imx290_link_freq_4lanes_74mhz :: "u64 list" where
  "imx290_link_freq_4lanes_74mhz = [445500000, 297000000]"

text \<open>\<open>imx290_link_freqs_ptr\<close>, lines 550-561. \<open>None\<close> is \<open>BUG()\<close>.\<close>

definition imx290_link_freqs_ptr :: "imx290 \<Rightarrow> u64 list option" where
  "imx290_link_freqs_ptr imx =
    (let sel = (if nlanes imx = 4 then 0x10 else 0) OR
               (if inck imx = INCK_74 then 0x01 else (0 :: u32))
     in if sel = 0x00 then Some imx290_link_freq_2lanes_37mhz
        else if sel = 0x01 then Some imx290_link_freq_2lanes_74mhz
        else if sel = 0x10 then Some imx290_link_freq_4lanes_37mhz
        else if sel = 0x11 then Some imx290_link_freq_4lanes_74mhz
        else None)"

text \<open>The mode catalogues, lines 577-609, and \<open>imx290_modes_ptr\<close>, lines 611-617.\<close>

definition imx290_modes_2lanes :: "imx290_mode list" where
  "imx290_modes_2lanes =
    [\<lparr>width = 1920, height = 1080, link_freq_index = FREQ_INDEX_1080P\<rparr>,
     \<lparr>width = 1280, height = 720, link_freq_index = FREQ_INDEX_720P\<rparr>]"

definition imx290_modes_4lanes :: "imx290_mode list" where
  "imx290_modes_4lanes =
    [\<lparr>width = 1920, height = 1080, link_freq_index = FREQ_INDEX_1080P\<rparr>,
     \<lparr>width = 1280, height = 720, link_freq_index = FREQ_INDEX_720P\<rparr>]"

definition imx290_modes_ptr :: "imx290 \<Rightarrow> imx290_mode list" where
  "imx290_modes_ptr imx =
    (if nlanes imx = 2 then imx290_modes_2lanes else imx290_modes_4lanes)"

text \<open>
  \<open>imx290_get_link_freq_index\<close> and \<open>imx290_get_link_freq\<close>, lines 1127-1137. \<open>None\<close> is
  the dereference of a NULL \<open>current_mode\<close> or a read past the end of the table.
\<close>

definition imx290_get_link_freq_index :: "imx290 \<Rightarrow> u8 option" where
  "imx290_get_link_freq_index imx = map_option link_freq_index (current_mode imx)"

definition imx290_get_link_freq :: "imx290 \<Rightarrow> u64 option" where
  "imx290_get_link_freq imx =
    (case imx290_get_link_freq_index imx of
       None \<Rightarrow> None
     | Some index \<Rightarrow>
         (case imx290_link_freqs_ptr imx of
            None \<Rightarrow> None
          | Some freqs \<Rightarrow>
              if unat index < length freqs then Some (freqs ! unat index) else None))"

text \<open>
  \<open>imx290_calc_pixel_rate\<close>, lines 1139-1149. The product is computed in 64 bits;
  \<open>do_div\<close> divides the unsigned 64-bit \<open>pixel_rate\<close> by \<open>bpp\<close> in place, and a zero \<open>bpp\<close>
  is a division by zero (\<open>None\<close>).
\<close>

definition imx290_calc_pixel_rate :: "imx290 \<Rightarrow> u64 option" where
  "imx290_calc_pixel_rate imx =
    (case imx290_get_link_freq imx of
       None \<Rightarrow> None
     | Some lf \<Rightarrow>
         (let pr = lf * 2 * ucast (nlanes imx)
          in if bpp imx = 0 then None else Some (pr div ucast (bpp imx))))"

subsection \<open>Format negotiation\<close>

datatype v4l2_subdev_format_whence = V4L2_SUBDEV_FORMAT_TRY | V4L2_SUBDEV_FORMAT_ACTIVE

text \<open>\<open>struct v4l2_subdev_format\<close>, without the pad number.\<close>

record v4l2_subdev_format =
  which :: v4l2_subdev_format_whence
  format :: v4l2_mbus_framefmt

text \<open>
  The loop of \<open>imx290_set_fmt\<close> at lines 1169-1171: the index of the first format with
  the requested code, or the size of the array when there is none.
\<close>

fun imx290_find_format :: "u32 \<Rightarrow> imx290_pixfmt list \<Rightarrow> nat \<Rightarrow> nat" where
  "imx290_find_format c [] i = i"
| "imx290_find_format c (f # fs) i =
    (if code f = c then i else imx290_find_format c fs (Suc i))"

text \<open>
  \<open>imx290_set_fmt\<close>, lines 1151-1200: the return code, the device and the format handed
  back. \<open>v4l2_find_nearest_size\<close> is a macro of the media core and a parameter here
  (\<open>nearest\<close>: the catalogue, the requested width and height, the entry chosen). A control
  that exists takes the value pushed into it; the range check of the control framework
  is outside the driver. \<open>None\<close> is a fault of \<open>imx290_calc_pixel_rate\<close>.
\<close>

definition imx290_set_fmt ::
  "(imx290_mode list \<Rightarrow> u32 \<Rightarrow> u32 \<Rightarrow> imx290_mode) \<Rightarrow> imx290 \<Rightarrow> v4l2_subdev_format
     \<Rightarrow> (int \<times> imx290 \<times> v4l2_subdev_format) option" where
  "imx290_set_fmt nearest imx fmt =
    (let mode = nearest (imx290_modes_ptr imx) (fmt_width (format fmt)) (fmt_height (format fmt));
         i0 = imx290_find_format (fmt_code (format fmt)) imx290_formats 0;
         i = (if i0 \<ge> length imx290_formats then 0 else i0);
         f = (format fmt)\<lparr>fmt_width := width mode, fmt_height := height mode,
                          fmt_code := code (imx290_formats ! i),
                          fmt_field := V4L2_FIELD_NONE,
                          fmt_colorspace := V4L2_COLORSPACE_SRGB\<rparr>;
         fmt' = fmt\<lparr>format := f\<rparr>
     in (case which fmt of
           V4L2_SUBDEV_FORMAT_TRY \<Rightarrow> Some (0, imx\<lparr>try_format := f\<rparr>, fmt')
         | V4L2_SUBDEV_FORMAT_ACTIVE \<Rightarrow>
             (let imx1 = imx\<lparr>current_mode := Some mode, bpp := pix_bpp (imx290_formats ! i)\<rparr>;
                  imx2 = (case link_freq imx1 of
                            None \<Rightarrow> imx1
                          | Some _ \<Rightarrow> imx1\<lparr>link_freq := Some (ucast (link_freq_index mode))\<rparr>)
              in (case pixel_rate imx2 of
                    None \<Rightarrow> Some (0, imx2\<lparr>current_format := f\<rparr>, fmt')
                  | Some _ \<Rightarrow>
                      (case imx290_calc_pixel_rate imx2 of
                         None \<Rightarrow> None
                       | Some r \<Rightarrow>
                           Some (0, imx2\<lparr>pixel_rate := Some r, current_format := f\<rparr>, fmt'))))))"

subsection \<open>Window mode and line total at stream start\<close>

text \<open>\<open>imx290_get_winmode\<close>, lines 793-807.\<close>

definition imx290_get_winmode :: "imx290 \<Rightarrow> u8" where
  "imx290_get_winmode imx =
    (case current_mode imx of
       None \<Rightarrow> 0
     | Some mode \<Rightarrow>
         if height mode = 1080 then push_bit 4 0
         else if height mode = 720 then push_bit 4 1
         else 0)"

text \<open>
  The block of \<open>imx290_start_streaming\<close> that runs under the mutex, lines 1276-1288: the
  WINMODE bits of the cached byte \<open>reg_3007\<close> and \<open>vmax\<close> are set from the current mode.
  The register tables written before it and the replay of the controls after it are not
  part of this model. \<open>None\<close> is the dereference of a NULL \<open>current_mode\<close>.
\<close>

definition imx290_start_streaming_locked :: "imx290 \<Rightarrow> imx290 option" where
  "imx290_start_streaming_locked imx =
    (let imx1 = imx\<lparr>reg_3007 := reg_3007 imx AND NOT (push_bit 4 7)\<rparr>;
         imx2 = imx1\<lparr>reg_3007 := reg_3007 imx1 OR imx290_get_winmode imx1\<rparr>
     in case current_mode imx2 of
          None \<Rightarrow> None
        | Some mode \<Rightarrow>
            if height mode = 1080 then Some (imx2\<lparr>vmax := 1125\<rparr>)
            else Some (imx2\<lparr>vmax := 750\<rparr>))"

subsection \<open>A device after probing\<close>

text \<open>
  The device as \<open>imx290_probe\<close> leaves it on a board with two lanes and a 37.125 MHz
  clock (\<open>FPS_30\<close>, 1920x1080 in \<open>SRGGB10\<close>, \<open>vmax\<close> and the flip cache still zero), with an
  empty trace. The concrete evaluations below start from it.
\<close>

definition imx290_probed :: imx290 where
  "imx290_probed =
    \<lparr>nlanes = 2, bpp = 10, fps = FPS_30, inck = INCK_37,
     current_format = \<lparr>fmt_width = 1920, fmt_height = 1080,
                       fmt_code = MEDIA_BUS_FMT_SRGGB10_1X10,
                       fmt_field = V4L2_FIELD_NONE, fmt_colorspace = V4L2_COLORSPACE_SRGB\<rparr>,
     try_format = \<lparr>fmt_width = 0, fmt_height = 0, fmt_code = 0, fmt_field = 0,
                   fmt_colorspace = 0\<rparr>,
     current_mode = Some \<lparr>width = 1920, height = 1080, link_freq_index = FREQ_INDEX_1080P\<rparr>,
     link_freq = Some 0, pixel_rate = Some 178200000,
     reg_3007 = 0, vmax = 0, regmap = []\<rparr>"

subsection \<open>Vocabulary of the properties\<close>

text \<open>
  The rows of a table that the condition evaluator accepts for a device, in table order;
  the bus writes that a list of rows stands for; and the return code of the bus for row
  \<open>j\<close> of a list, once the rows before it have been written after the trace \<open>tr\<close>.
\<close>

definition matching_entries :: "imx290 \<Rightarrow> imx290_regval list \<Rightarrow> imx290_regval list" where
  "matching_entries imx settings = filter (\<lambda>r. imx290_settings_match imx (cond r)) settings"

definition writes_of :: "imx290_regval list \<Rightarrow> (u16 \<times> u8) list" where
  "writes_of rs = map (\<lambda>r. (reg r, val r)) rs"

definition write_result :: "regmap_bus \<Rightarrow> (u16 \<times> u8) list \<Rightarrow> imx290_regval list \<Rightarrow> nat \<Rightarrow> int" where
  "write_result bus tr ms j = bus (tr @ writes_of (take j ms)) (reg (ms ! j)) (val (ms ! j))"

text \<open>The bit of register 0x3007 that a flip control owns: bit 1 for H-flip, bit 0 for V-flip.\<close>

definition flip_bit :: "v4l2_ctrl \<Rightarrow> nat" where
  "flip_bit ctrl = (if ctrl_id ctrl = V4L2_CID_HFLIP then 1 else 0)"

text \<open>
  The byte a flip update is to write and cache: the cached byte with the bit of the
  control set when the control value is non-zero and cleared when it is zero.
\<close>

definition flip_byte :: "imx290 \<Rightarrow> v4l2_ctrl \<Rightarrow> u8" where
  "flip_byte imx ctrl =
    (if ctrl_val ctrl \<noteq> 0 then set_bit (flip_bit ctrl) (reg_3007 imx)
     else unset_bit (flip_bit ctrl) (reg_3007 imx))"

text \<open>
  The exposure formula in the words of the specification,
  \<open>raw = vmax - 2 - round((ctrl_value * (vmax - 2)) / ctrl_max)\<close> with the rounded term
  clamped to at least 1, over the integers; \<open>spec_round_div a b\<close> is the integer nearest
  to \<open>a / b\<close> for a positive \<open>b\<close>.
\<close>

definition spec_round_div :: "int \<Rightarrow> int \<Rightarrow> int" where
  "spec_round_div a b = (2 * a + b) div (2 * b)"

definition spec_exposure_raw :: "int \<Rightarrow> int \<Rightarrow> int \<Rightarrow> int" where
  "spec_exposure_raw vm c cmax = vm - 2 - max 1 (spec_round_div (c * (vm - 2)) cmax)"

text \<open>
  The frame-interval rule in the words of the specification. A requested interval
  \<open>n / d\<close> seconds asks for the rate \<open>d / n\<close>; the rate of a class is at least the requested
  one when \<open>d * n\<^sub>c \<le> n * d\<^sub>c\<close> for the interval \<open>n\<^sub>c / d\<^sub>c\<close> of the class. A class is the
  one the specification selects when its rate is at least the requested one and no class
  with that property has a smaller rate.
\<close>

definition spec_rate_ge :: "imx290_fps \<Rightarrow> v4l2_fract \<Rightarrow> bool" where
  "spec_rate_ge f iv =
    (unat (denominator iv) * unat (numerator (imx290_intervals f))
       \<le> unat (numerator iv) * unat (denominator (imx290_intervals f)))"

definition fps_rate :: "imx290_fps \<Rightarrow> nat" where
  "fps_rate f = unat (denominator (imx290_intervals f)) div unat (numerator (imx290_intervals f))"

definition spec_smallest_class :: "imx290_fps \<Rightarrow> v4l2_fract \<Rightarrow> bool" where
  "spec_smallest_class f iv =
    (spec_rate_ge f iv \<and>
     (\<forall>g \<in> set [FPS_25, FPS_30, FPS_50, FPS_60]. spec_rate_ge g iv \<longrightarrow> fps_rate f \<le> fps_rate g))"

section \<open>Properties\<close>

lemmas COND_defs =
  COND_25_FPS_def COND_30_FPS_def COND_50_FPS_def COND_60_FPS_def
  COND_25_30_FPS_def COND_50_60_FPS_def COND_FPS_msk_def
  COND_2_LANES_def COND_4_LANES_def COND_LANES_msk_def
  COND_INCK_37_def COND_INCK_74_def COND_INCK_msk_def

subsection \<open>Condition evaluator\<close>

text \<open>
  C1. The specification asks that a mask constraining only the input-clock axis matches a
  37.125 MHz configuration exactly when the \<open>COND_INCK_37\<close> bit is set, and a 74.25 MHz
  one exactly when \<open>COND_INCK_74\<close> is. The two cases of the switch on \<open>inck\<close> test each
  other's bit: a 37.125 MHz device is rejected by the mask \<open>COND_INCK_37\<close> and accepted
  by the mask \<open>COND_INCK_74\<close>, and the other way round for a 74.25 MHz device, whatever
  the frame rate and the lane count are. The switches on \<open>fps\<close> and \<open>nlanes\<close> test the
  bit of the device's own value: a 25 fps device is accepted by \<open>COND_25_FPS\<close> and
  rejected by \<open>COND_30_FPS\<close>, a two-lane device is accepted by \<open>COND_2_LANES\<close> and
  rejected by \<open>COND_4_LANES\<close>.
\<close>

theorem imx290_settings_match_inck_swapped:
  "imx290_settings_match (imx\<lparr>inck := INCK_37\<rparr>) COND_INCK_37 = False
   \<and> imx290_settings_match (imx\<lparr>inck := INCK_37\<rparr>) COND_INCK_74 = True
   \<and> imx290_settings_match (imx\<lparr>inck := INCK_74\<rparr>) COND_INCK_74 = False
   \<and> imx290_settings_match (imx\<lparr>inck := INCK_74\<rparr>) COND_INCK_37 = True
   \<and> imx290_settings_match (imx\<lparr>fps := FPS_25\<rparr>) COND_25_FPS = True
   \<and> imx290_settings_match (imx\<lparr>fps := FPS_25\<rparr>) COND_30_FPS = False
   \<and> imx290_settings_match (imx\<lparr>nlanes := 2\<rparr>) COND_2_LANES = True
   \<and> imx290_settings_match (imx\<lparr>nlanes := 2\<rparr>) COND_4_LANES = False"
  by (simp add: imx290_settings_match_def COND_defs)

text \<open>A row without a condition is accepted by every device; the trace plays no part.\<close>

lemma settings_match_zero: "imx290_settings_match imx 0"
  by (simp add: imx290_settings_match_def)

lemma settings_match_regmap:
  "imx290_settings_match (imx\<lparr>regmap := l\<rparr>) c = imx290_settings_match imx c"
  by (simp add: imx290_settings_match_def)

lemma matching_entries_regmap:
  "matching_entries (imx\<lparr>regmap := l\<rparr>) settings = matching_entries imx settings"
  by (simp add: matching_entries_def settings_match_regmap)

subsection \<open>Sequence applier\<close>

lemma write_reg_eq:
  "imx290_write_reg bus imx a v =
     (bus (regmap imx) a v, imx\<lparr>regmap := regmap imx @ [(a, v)]\<rparr>)"
  by (simp add: imx290_write_reg_def Let_def)

lemma write_result_0: "write_result bus tr (r # ms) 0 = bus tr (reg r) (val r)"
  by (simp add: write_result_def writes_of_def)

lemma write_result_Suc:
  "write_result bus tr (r # ms) (Suc j) = write_result bus (tr @ [(reg r, val r)]) ms j"
  by (simp add: write_result_def writes_of_def)

lemma sra_skip:
  "\<not> imx290_settings_match imx (cond r) \<Longrightarrow>
     imx290_set_register_array bus imx (r # settings) = imx290_set_register_array bus imx settings
     \<and> matching_entries imx (r # settings) = matching_entries imx settings"
  by (simp add: matching_entries_def)

lemma sra_write:
  "imx290_settings_match imx (cond r) \<Longrightarrow>
     imx290_set_register_array bus imx (r # settings) =
       (if bus (regmap imx) (reg r) (val r) < 0
        then (bus (regmap imx) (reg r) (val r), imx\<lparr>regmap := regmap imx @ [(reg r, val r)]\<rparr>)
        else imx290_set_register_array bus (imx\<lparr>regmap := regmap imx @ [(reg r, val r)]\<rparr>) settings)
     \<and> matching_entries imx (r # settings) = r # matching_entries imx settings"
  by (simp add: matching_entries_def write_reg_eq)

text \<open>No matching write fails: the whole matching subsequence is written and 0 returned.\<close>

lemma sra_all_ok:
  "(\<And>j. j < length (matching_entries imx settings) \<Longrightarrow>
         \<not> write_result bus (regmap imx) (matching_entries imx settings) j < 0)
   \<Longrightarrow> imx290_set_register_array bus imx settings =
        (0, imx\<lparr>regmap := regmap imx @ writes_of (matching_entries imx settings)\<rparr>)"
proof (induction settings arbitrary: imx)
  case Nil
  then show ?case by (simp add: matching_entries_def writes_of_def)
next
  case (Cons r settings)
  show ?case
  proof (cases "imx290_settings_match imx (cond r)")
    case False
    with Cons show ?thesis by (simp add: sra_skip)
  next
    case True
    let ?imx' = "imx\<lparr>regmap := regmap imx @ [(reg r, val r)]\<rparr>"
    note step = sra_write[OF True, of bus settings]
    have ok0: "\<not> bus (regmap imx) (reg r) (val r) < 0"
      using Cons.prems[of 0] step by (simp add: write_result_0)
    have "imx290_set_register_array bus ?imx' settings =
            (0, ?imx'\<lparr>regmap := regmap ?imx' @ writes_of (matching_entries ?imx' settings)\<rparr>)"
    proof (rule Cons.IH)
      fix j assume "j < length (matching_entries ?imx' settings)"
      then have "Suc j < length (matching_entries imx (r # settings))"
        using step by (simp add: matching_entries_regmap)
      from Cons.prems[OF this]
      show "\<not> write_result bus (regmap ?imx') (matching_entries ?imx' settings) j < 0"
        using step by (simp add: matching_entries_regmap write_result_Suc)
    qed
    with ok0 step show ?thesis
      by (simp add: matching_entries_regmap writes_of_def)
  qed
qed

text \<open>
  Matching write \<open>j\<close> is the first to fail: the writes up to and including it are on the
  trace, its code is returned, and the rest of the table is not looked at.
\<close>

lemma sra_first_failure:
  "j < length (matching_entries imx settings) \<Longrightarrow>
   write_result bus (regmap imx) (matching_entries imx settings) j < 0 \<Longrightarrow>
   (\<And>i. i < j \<Longrightarrow> \<not> write_result bus (regmap imx) (matching_entries imx settings) i < 0) \<Longrightarrow>
   imx290_set_register_array bus imx settings =
     (write_result bus (regmap imx) (matching_entries imx settings) j,
      imx\<lparr>regmap := regmap imx @ writes_of (take (Suc j) (matching_entries imx settings))\<rparr>)"
proof (induction settings arbitrary: imx j)
  case Nil
  then show ?case by (simp add: matching_entries_def)
next
  case (Cons r settings)
  show ?case
  proof (cases "imx290_settings_match imx (cond r)")
    case False
    with Cons show ?thesis by (simp add: sra_skip)
  next
    case True
    let ?imx' = "imx\<lparr>regmap := regmap imx @ [(reg r, val r)]\<rparr>"
    note step = sra_write[OF True, of bus settings]
    show ?thesis
    proof (cases j)
      case 0
      with Cons.prems(2) step show ?thesis
        by (simp add: write_result_0 writes_of_def)
    next
      case (Suc k)
      have ok0: "\<not> bus (regmap imx) (reg r) (val r) < 0"
        using Cons.prems(3)[of 0] Suc step by (simp add: write_result_0)
      have "imx290_set_register_array bus ?imx' settings =
             (write_result bus (regmap ?imx') (matching_entries ?imx' settings) k,
              ?imx'\<lparr>regmap := regmap ?imx' @
                 writes_of (take (Suc k) (matching_entries ?imx' settings))\<rparr>)"
      proof (rule Cons.IH)
        show "k < length (matching_entries ?imx' settings)"
          using Cons.prems(1) Suc step by (simp add: matching_entries_regmap)
        show "write_result bus (regmap ?imx') (matching_entries ?imx' settings) k < 0"
          using Cons.prems(2) Suc step by (simp add: matching_entries_regmap write_result_Suc)
        fix i assume "i < k"
        then have "Suc i < j" using Suc by simp
        from Cons.prems(3)[OF this]
        show "\<not> write_result bus (regmap ?imx') (matching_entries ?imx' settings) i < 0"
          using step by (simp add: matching_entries_regmap write_result_Suc)
      qed
      with ok0 step Suc show ?thesis
        by (simp add: matching_entries_regmap writes_of_def write_result_Suc)
    qed
  qed
qed

text \<open>
  C2. For every device, bus and table, \<open>imx290_set_register_array\<close> issues the writes of
  the rows that \<open>imx290_settings_match\<close> accepts for the device, in table order. When none of them fails
  it returns 0 with all of them on the trace. When matching write \<open>j\<close> is the first whose
  return code is negative, that code is returned at once: the trace holds the matching
  writes up to and including write \<open>j\<close> and nothing after it, the earlier writes stay on
  the trace (no rollback), and nothing else of the device changes.
\<close>

theorem imx290_set_register_array_writes:
  "((\<forall>j < length (matching_entries imx settings).
        \<not> write_result bus (regmap imx) (matching_entries imx settings) j < 0) \<longrightarrow>
      imx290_set_register_array bus imx settings =
        (0, imx\<lparr>regmap := regmap imx @ writes_of (matching_entries imx settings)\<rparr>))
   \<and> (\<forall>j < length (matching_entries imx settings).
        write_result bus (regmap imx) (matching_entries imx settings) j < 0 \<and>
        (\<forall>i < j. \<not> write_result bus (regmap imx) (matching_entries imx settings) i < 0) \<longrightarrow>
        imx290_set_register_array bus imx settings =
          (write_result bus (regmap imx) (matching_entries imx settings) j,
           imx\<lparr>regmap := regmap imx @
              writes_of (take (Suc j) (matching_entries imx settings))\<rparr>))"
proof (intro conjI allI impI)
  assume "\<forall>j < length (matching_entries imx settings).
        \<not> write_result bus (regmap imx) (matching_entries imx settings) j < 0"
  then show "imx290_set_register_array bus imx settings =
        (0, imx\<lparr>regmap := regmap imx @ writes_of (matching_entries imx settings)\<rparr>)"
    by (intro sra_all_ok) blast
next
  fix j
  assume "j < length (matching_entries imx settings)"
    and "write_result bus (regmap imx) (matching_entries imx settings) j < 0 \<and>
        (\<forall>i < j. \<not> write_result bus (regmap imx) (matching_entries imx settings) i < 0)"
  then show "imx290_set_register_array bus imx settings =
          (write_result bus (regmap imx) (matching_entries imx settings) j,
           imx\<lparr>regmap := regmap imx @
              writes_of (take (Suc j) (matching_entries imx settings))\<rparr>)"
    by (intro sra_first_failure) blast+
qed

text \<open>
  The probed device (30 fps, two lanes) and a five-row table, of which the 50/60 fps row
  and the four-lane row are skipped. On a bus that accepts every write the three other
  rows are written in order; on a bus whose second write fails with \<open>-5\<close> that code is
  returned and the last row is never written.
\<close>

theorem imx290_set_register_array_writes_witness:
  "imx290_set_register_array (\<lambda>tr a v. 0) imx290_probed
     [\<lparr>reg = 0x3009, val = 0x01, cond = COND_50_60_FPS\<rparr>,
      \<lparr>reg = 0x3009, val = 0x02, cond = COND_25_30_FPS\<rparr>,
      \<lparr>reg = 0x3405, val = 0x10, cond = COND_25_30_FPS OR COND_2_LANES\<rparr>,
      \<lparr>reg = 0x3405, val = 0x20, cond = COND_25_30_FPS OR COND_4_LANES\<rparr>,
      \<lparr>reg = 0x3040, val = 0x00, cond = 0\<rparr>]
   = (0, imx290_probed\<lparr>regmap := [(0x3009, 0x02), (0x3405, 0x10), (0x3040, 0x00)]\<rparr>)
   \<and> imx290_set_register_array (\<lambda>tr a v. if length tr = 1 then - 5 else 0) imx290_probed
     [\<lparr>reg = 0x3009, val = 0x01, cond = COND_50_60_FPS\<rparr>,
      \<lparr>reg = 0x3009, val = 0x02, cond = COND_25_30_FPS\<rparr>,
      \<lparr>reg = 0x3405, val = 0x10, cond = COND_25_30_FPS OR COND_2_LANES\<rparr>,
      \<lparr>reg = 0x3405, val = 0x20, cond = COND_25_30_FPS OR COND_4_LANES\<rparr>,
      \<lparr>reg = 0x3040, val = 0x00, cond = 0\<rparr>]
   = (- 5, imx290_probed\<lparr>regmap := [(0x3009, 0x02), (0x3405, 0x10)]\<rparr>)"
  using imx290_set_register_array_writes
     [of imx290_probed
       "[\<lparr>reg = 0x3009, val = 0x01, cond = COND_50_60_FPS\<rparr>,
         \<lparr>reg = 0x3009, val = 0x02, cond = COND_25_30_FPS\<rparr>,
         \<lparr>reg = 0x3405, val = 0x10, cond = COND_25_30_FPS OR COND_2_LANES\<rparr>,
         \<lparr>reg = 0x3405, val = 0x20, cond = COND_25_30_FPS OR COND_4_LANES\<rparr>,
         \<lparr>reg = 0x3040, val = 0x00, cond = 0\<rparr>]"
       "\<lambda>tr a v. 0",
      THEN conjunct1]
    imx290_set_register_array_writes
     [of imx290_probed
       "[\<lparr>reg = 0x3009, val = 0x01, cond = COND_50_60_FPS\<rparr>,
         \<lparr>reg = 0x3009, val = 0x02, cond = COND_25_30_FPS\<rparr>,
         \<lparr>reg = 0x3405, val = 0x10, cond = COND_25_30_FPS OR COND_2_LANES\<rparr>,
         \<lparr>reg = 0x3405, val = 0x20, cond = COND_25_30_FPS OR COND_4_LANES\<rparr>,
         \<lparr>reg = 0x3040, val = 0x00, cond = 0\<rparr>]"
       "\<lambda>tr a v. if length tr = 1 then - 5 else 0",
      THEN conjunct2, rule_format, of 1]
  by (simp add: matching_entries_def writes_of_def write_result_def imx290_settings_match_def
        imx290_probed_def COND_defs)

subsection \<open>Control updates\<close>

text \<open>A table whose first row has no condition: the row is written, whatever the device.\<close>

lemma sra_always:
  "imx290_set_register_array bus imx (\<lparr>reg = a, val = v, cond = 0\<rparr> # settings) =
     (if bus (regmap imx) a v < 0
      then (bus (regmap imx) a v, imx\<lparr>regmap := regmap imx @ [(a, v)]\<rparr>)
      else imx290_set_register_array bus (imx\<lparr>regmap := regmap imx @ [(a, v)]\<rparr>) settings)"
  by (simp add: settings_match_zero write_reg_eq)

text \<open>
  C3. The specification asks that a bus failure during any control update while powered
  reaches the caller. The test-pattern branch of \<open>imx290_set_ctrl\<close> drops the return code
  of each of its writes: for every bus and every device it answers 0. On a bus where
  every write fails with \<open>-5\<close> the three writes are issued and 0 is returned, while the
  gain control on the same bus returns \<open>-5\<close> after its first write.
\<close>

theorem imx290_set_ctrl_test_pattern_drops_errors:
  "(\<exists>imx'. imx290_set_ctrl bus 1 imx (ctrl\<lparr>ctrl_id := V4L2_CID_TEST_PATTERN\<rparr>) = Some (0, imx'))
   \<and> imx290_set_ctrl (\<lambda>tr a v. - 5) 1 imx290_probed
         \<lparr>ctrl_id = V4L2_CID_TEST_PATTERN, ctrl_val = 1, maximum = 7\<rparr>
       = Some (0, imx290_probed\<lparr>regmap := [(0x300a, 0x00), (0x300b, 0x00), (0x308c, 0x13)]\<rparr>)
   \<and> imx290_set_ctrl (\<lambda>tr a v. - 5) 1 imx290_probed
         \<lparr>ctrl_id = V4L2_CID_GAIN, ctrl_val = 1, maximum = 240\<rparr>
       = Some (- 5, imx290_probed\<lparr>regmap := [(0x3001, 0x01)]\<rparr>)"
proof (intro conjI)
  show "\<exists>imx'. imx290_set_ctrl bus 1 imx (ctrl\<lparr>ctrl_id := V4L2_CID_TEST_PATTERN\<rparr>) = Some (0, imx')"
    by (simp add: imx290_set_ctrl_def Let_def)
  show "imx290_set_ctrl (\<lambda>tr a v. - 5) 1 imx290_probed
         \<lparr>ctrl_id = V4L2_CID_TEST_PATTERN, ctrl_val = 1, maximum = 7\<rparr>
       = Some (0, imx290_probed\<lparr>regmap := [(0x300a, 0x00), (0x300b, 0x00), (0x308c, 0x13)]\<rparr>)"
    by (simp add: imx290_set_ctrl_def Let_def write_reg_eq imx290_probed_def
          IMX290_BLKLEVEL_LOW_def IMX290_BLKLEVEL_HIGH_def IMX290_PGCTRL_def
          IMX290_PGCTRL_REGEN_def IMX290_PGCTRL_THRU_def IMX290_PGCTRL_MODE_def)
  show "imx290_set_ctrl (\<lambda>tr a v. - 5) 1 imx290_probed
         \<lparr>ctrl_id = V4L2_CID_GAIN, ctrl_val = 1, maximum = 240\<rparr>
       = Some (- 5, imx290_probed\<lparr>regmap := [(0x3001, 0x01)]\<rparr>)"
    by (simp add: imx290_set_ctrl_def imx290_set_gain_def imx290_write_buffered_reg_def
          write_reg_eq imx290_probed_def IMX290_REGHOLD_def)
qed

text \<open>
  C9. For every control, bus and device, a set-control request made while the device is
  powered off (\<open>pm_runtime_get_if_in_use\<close> answers 0) returns 0 and leaves the device,
  its trace of bus writes included, as it was.
\<close>

theorem imx290_set_ctrl_powered_off:
  "imx290_set_ctrl bus 0 imx ctrl = Some (0, imx)
   \<and> regmap (snd (the (imx290_set_ctrl bus 0 imx ctrl))) = regmap imx"
  by (simp add: imx290_set_ctrl_def)

subsection \<open>Flip\<close>

text \<open>The byte computed with the mask is the cached byte with the control's bit replaced.\<close>

lemma flip_byte_eq:
  "(if ctrl_val ctrl \<noteq> 0
    then reg_3007 imx OR (if ctrl_id ctrl = V4L2_CID_HFLIP then 0x02 else 0x01)
    else reg_3007 imx AND NOT (if ctrl_id ctrl = V4L2_CID_HFLIP then 0x02 else 0x01))
   = flip_byte imx ctrl"
  by (simp add: flip_byte_def flip_bit_def set_bit_eq_or unset_bit_eq_and_not)

lemma flip_byte_bits:
  "bit (flip_byte imx ctrl) n =
     (if n = flip_bit ctrl then ctrl_val ctrl \<noteq> 0 else bit (reg_3007 imx) n)"
  by (auto simp: flip_byte_def flip_bit_def bit_simps)

text \<open>The four outcomes of a flip update, by the write that fails first.\<close>

lemma set_flip_result:
  "imx290_set_flip bus imx ctrl =
    (if bus (regmap imx) 0x3001 0x01 < 0
     then (bus (regmap imx) 0x3001 0x01, imx\<lparr>regmap := regmap imx @ [(0x3001, 0x01)]\<rparr>)
     else if bus (regmap imx @ [(0x3001, 0x01)]) 0x3007 (flip_byte imx ctrl) < 0
     then (bus (regmap imx @ [(0x3001, 0x01)]) 0x3007 (flip_byte imx ctrl),
           imx\<lparr>regmap := regmap imx @ [(0x3001, 0x01), (0x3007, flip_byte imx ctrl)]\<rparr>)
     else if bus (regmap imx @ [(0x3001, 0x01), (0x3007, flip_byte imx ctrl)]) 0x3001 0x00 < 0
     then (bus (regmap imx @ [(0x3001, 0x01), (0x3007, flip_byte imx ctrl)]) 0x3001 0x00,
           imx\<lparr>regmap := regmap imx @
                  [(0x3001, 0x01), (0x3007, flip_byte imx ctrl), (0x3001, 0x00)]\<rparr>)
     else (0, imx\<lparr>regmap := regmap imx @
                    [(0x3001, 0x01), (0x3007, flip_byte imx ctrl), (0x3001, 0x00)],
                reg_3007 := flip_byte imx ctrl\<rparr>))"
  unfolding imx290_set_flip_def Let_def sra_always imx290_set_register_array.simps(1)
    flip_byte_eq
  by simp

lemma flip_byte_hflip_on:
  "flip_byte imx \<lparr>ctrl_id = V4L2_CID_HFLIP, ctrl_val = 1, maximum = 1\<rparr> = reg_3007 imx OR 0x02"
  by (simp add: flip_byte_def flip_bit_def set_bit_eq_or)

lemma flip_byte_vflip_on:
  "flip_byte imx \<lparr>ctrl_id = V4L2_CID_VFLIP, ctrl_val = 1, maximum = 1\<rparr> = reg_3007 imx OR 0x01"
  by (simp add: flip_byte_def flip_bit_def set_bit_eq_or)

text \<open>
  C7, as the specification states it: H-flip then V-flip leave the cache equal to the OR
  of the two masks, 0x03. The cached byte is shared with the window mode. The probed
  device is set to 1280x720 (the catalogue entry \<open>v4l2_find_nearest_size\<close> answers for
  that size is the last one), the stream start puts WINMODE \<open>0x10\<close> into the cache, and
  the two flip updates, on a bus that accepts every write, then leave \<open>0x13\<close>.
\<close>

theorem imx290_set_flip_winmode_counterexample:
  "imx290_set_fmt (\<lambda>ms w h. last ms) imx290_probed
       \<lparr>which = V4L2_SUBDEV_FORMAT_ACTIVE,
        format = \<lparr>fmt_width = 1280, fmt_height = 720, fmt_code = MEDIA_BUS_FMT_SRGGB10_1X10,
                  fmt_field = 0, fmt_colorspace = 0\<rparr>\<rparr>
     = Some (0,
         imx290_probed\<lparr>current_format :=
             \<lparr>fmt_width = 1280, fmt_height = 720, fmt_code = MEDIA_BUS_FMT_SRGGB10_1X10,
              fmt_field = V4L2_FIELD_NONE, fmt_colorspace = V4L2_COLORSPACE_SRGB\<rparr>,
           current_mode := Some \<lparr>width = 1280, height = 720, link_freq_index = FREQ_INDEX_720P\<rparr>,
           link_freq := Some 1, pixel_rate := Some 118800000\<rparr>,
         \<lparr>which = V4L2_SUBDEV_FORMAT_ACTIVE,
          format = \<lparr>fmt_width = 1280, fmt_height = 720, fmt_code = MEDIA_BUS_FMT_SRGGB10_1X10,
                    fmt_field = V4L2_FIELD_NONE, fmt_colorspace = V4L2_COLORSPACE_SRGB\<rparr>\<rparr>)
   \<and> imx290_start_streaming_locked
         (imx290_probed\<lparr>current_format :=
             \<lparr>fmt_width = 1280, fmt_height = 720, fmt_code = MEDIA_BUS_FMT_SRGGB10_1X10,
              fmt_field = V4L2_FIELD_NONE, fmt_colorspace = V4L2_COLORSPACE_SRGB\<rparr>,
           current_mode := Some \<lparr>width = 1280, height = 720, link_freq_index = FREQ_INDEX_720P\<rparr>,
           link_freq := Some 1, pixel_rate := Some 118800000\<rparr>)
     = Some (imx290_probed\<lparr>current_format :=
             \<lparr>fmt_width = 1280, fmt_height = 720, fmt_code = MEDIA_BUS_FMT_SRGGB10_1X10,
              fmt_field = V4L2_FIELD_NONE, fmt_colorspace = V4L2_COLORSPACE_SRGB\<rparr>,
           current_mode := Some \<lparr>width = 1280, height = 720, link_freq_index = FREQ_INDEX_720P\<rparr>,
           link_freq := Some 1, pixel_rate := Some 118800000,
           reg_3007 := 0x10, vmax := 750\<rparr>)
   \<and> imx290_set_flip (\<lambda>tr a v. 0)
         (imx290_probed\<lparr>current_format :=
             \<lparr>fmt_width = 1280, fmt_height = 720, fmt_code = MEDIA_BUS_FMT_SRGGB10_1X10,
              fmt_field = V4L2_FIELD_NONE, fmt_colorspace = V4L2_COLORSPACE_SRGB\<rparr>,
           current_mode := Some \<lparr>width = 1280, height = 720, link_freq_index = FREQ_INDEX_720P\<rparr>,
           link_freq := Some 1, pixel_rate := Some 118800000,
           reg_3007 := 0x10, vmax := 750\<rparr>)
         \<lparr>ctrl_id = V4L2_CID_HFLIP, ctrl_val = 1, maximum = 1\<rparr>
     = (0, imx290_probed\<lparr>current_format :=
             \<lparr>fmt_width = 1280, fmt_height = 720, fmt_code = MEDIA_BUS_FMT_SRGGB10_1X10,
              fmt_field = V4L2_FIELD_NONE, fmt_colorspace = V4L2_COLORSPACE_SRGB\<rparr>,
           current_mode := Some \<lparr>width = 1280, height = 720, link_freq_index = FREQ_INDEX_720P\<rparr>,
           link_freq := Some 1, pixel_rate := Some 118800000,
           reg_3007 := 0x12, vmax := 750,
           regmap := [(0x3001, 0x01), (0x3007, 0x12), (0x3001, 0x00)]\<rparr>)
   \<and> imx290_set_flip (\<lambda>tr a v. 0)
         (imx290_probed\<lparr>current_format :=
             \<lparr>fmt_width = 1280, fmt_height = 720, fmt_code = MEDIA_BUS_FMT_SRGGB10_1X10,
              fmt_field = V4L2_FIELD_NONE, fmt_colorspace = V4L2_COLORSPACE_SRGB\<rparr>,
           current_mode := Some \<lparr>width = 1280, height = 720, link_freq_index = FREQ_INDEX_720P\<rparr>,
           link_freq := Some 1, pixel_rate := Some 118800000,
           reg_3007 := 0x12, vmax := 750,
           regmap := [(0x3001, 0x01), (0x3007, 0x12), (0x3001, 0x00)]\<rparr>)
         \<lparr>ctrl_id = V4L2_CID_VFLIP, ctrl_val = 1, maximum = 1\<rparr>
     = (0, imx290_probed\<lparr>current_format :=
             \<lparr>fmt_width = 1280, fmt_height = 720, fmt_code = MEDIA_BUS_FMT_SRGGB10_1X10,
              fmt_field = V4L2_FIELD_NONE, fmt_colorspace = V4L2_COLORSPACE_SRGB\<rparr>,
           current_mode := Some \<lparr>width = 1280, height = 720, link_freq_index = FREQ_INDEX_720P\<rparr>,
           link_freq := Some 1, pixel_rate := Some 118800000,
           reg_3007 := 0x13, vmax := 750,
           regmap := [(0x3001, 0x01), (0x3007, 0x12), (0x3001, 0x00),
                      (0x3001, 0x01), (0x3007, 0x13), (0x3001, 0x00)]\<rparr>)
   \<and> (0x13 :: u8) \<noteq> 0x02 OR 0x01"
  by (simp add: imx290_set_fmt_def Let_def imx290_probed_def imx290_formats_def
        imx290_modes_ptr_def imx290_modes_2lanes_def imx290_calc_pixel_rate_def
        imx290_get_link_freq_def imx290_get_link_freq_index_def imx290_link_freqs_ptr_def
        imx290_link_freq_2lanes_37mhz_def FREQ_INDEX_720P_def FREQ_INDEX_1080P_def
        MEDIA_BUS_FMT_SRGGB10_1X10_def MEDIA_BUS_FMT_SRGGB12_1X12_def
        imx290_start_streaming_locked_def imx290_get_winmode_def
        imx290_set_flip_def settings_match_zero write_reg_eq)

text \<open>
  C7, amended. The byte of a flip update differs from the cached byte \<open>reg_3007\<close> in the
  bit of the control only (bit 1 for H-flip, bit 0 for V-flip), which tells whether the
  control value is non-zero. The update issues the hold write, the write of that byte to
  0x3007 and the release write, in this order, and stops at the first one the bus fails.
  When the bus fails none of the three, the update returns 0 and the cache holds the new
  byte. When the bus fails the hold write, the write to 0x3007 or the release write, the
  update returns the code of that write, nothing is written after it, and the cache
  keeps the old byte. Hence on a bus that fails no write, H-flip then V-flip both return
  0, leave the cache at the old byte OR 0x02 OR 0x01 (so at 0x03 when the old byte had
  no bit set) and issue exactly two writes to 0x3007, one per update.
\<close>

theorem imx290_set_flip_cache:
  "(\<forall>n. bit (flip_byte imx ctrl) n =
          (if n = flip_bit ctrl then ctrl_val ctrl \<noteq> 0 else bit (reg_3007 imx) n))
   \<and> (\<not> bus (regmap imx) 0x3001 0x01 < 0 \<and>
       \<not> bus (regmap imx @ [(0x3001, 0x01)]) 0x3007 (flip_byte imx ctrl) < 0 \<and>
       \<not> bus (regmap imx @ [(0x3001, 0x01), (0x3007, flip_byte imx ctrl)]) 0x3001 0x00 < 0 \<longrightarrow>
       imx290_set_flip bus imx ctrl =
         (0, imx\<lparr>regmap := regmap imx @
                   [(0x3001, 0x01), (0x3007, flip_byte imx ctrl), (0x3001, 0x00)],
               reg_3007 := flip_byte imx ctrl\<rparr>))
   \<and> (bus (regmap imx) 0x3001 0x01 < 0 \<longrightarrow>
       imx290_set_flip bus imx ctrl =
         (bus (regmap imx) 0x3001 0x01, imx\<lparr>regmap := regmap imx @ [(0x3001, 0x01)]\<rparr>))
   \<and> (\<not> bus (regmap imx) 0x3001 0x01 < 0 \<and>
       bus (regmap imx @ [(0x3001, 0x01)]) 0x3007 (flip_byte imx ctrl) < 0 \<longrightarrow>
       imx290_set_flip bus imx ctrl =
         (bus (regmap imx @ [(0x3001, 0x01)]) 0x3007 (flip_byte imx ctrl),
          imx\<lparr>regmap := regmap imx @ [(0x3001, 0x01), (0x3007, flip_byte imx ctrl)]\<rparr>))
   \<and> (\<not> bus (regmap imx) 0x3001 0x01 < 0 \<and>
       \<not> bus (regmap imx @ [(0x3001, 0x01)]) 0x3007 (flip_byte imx ctrl) < 0 \<and>
       bus (regmap imx @ [(0x3001, 0x01), (0x3007, flip_byte imx ctrl)]) 0x3001 0x00 < 0 \<longrightarrow>
       imx290_set_flip bus imx ctrl =
         (bus (regmap imx @ [(0x3001, 0x01), (0x3007, flip_byte imx ctrl)]) 0x3001 0x00,
          imx\<lparr>regmap := regmap imx @
                 [(0x3001, 0x01), (0x3007, flip_byte imx ctrl), (0x3001, 0x00)]\<rparr>))
   \<and> ((\<forall>tr a v. \<not> bus tr a v < 0) \<longrightarrow>
       imx290_set_flip bus imx \<lparr>ctrl_id = V4L2_CID_HFLIP, ctrl_val = 1, maximum = 1\<rparr> =
         (0, imx\<lparr>regmap := regmap imx @
                   [(0x3001, 0x01), (0x3007, reg_3007 imx OR 0x02), (0x3001, 0x00)],
               reg_3007 := reg_3007 imx OR 0x02\<rparr>) \<and>
       imx290_set_flip bus
           (imx\<lparr>regmap := regmap imx @
                   [(0x3001, 0x01), (0x3007, reg_3007 imx OR 0x02), (0x3001, 0x00)],
               reg_3007 := reg_3007 imx OR 0x02\<rparr>)
           \<lparr>ctrl_id = V4L2_CID_VFLIP, ctrl_val = 1, maximum = 1\<rparr> =
         (0, imx\<lparr>regmap := regmap imx @
                   [(0x3001, 0x01), (0x3007, reg_3007 imx OR 0x02), (0x3001, 0x00),
                    (0x3001, 0x01), (0x3007, reg_3007 imx OR 0x02 OR 0x01), (0x3001, 0x00)],
               reg_3007 := reg_3007 imx OR 0x02 OR 0x01\<rparr>) \<and>
       length (filter (\<lambda>w. fst w = (0x3007 :: u16))
                [(0x3001, 0x01), (0x3007, reg_3007 imx OR 0x02), (0x3001, 0x00),
                 (0x3001, 0x01), (0x3007, reg_3007 imx OR 0x02 OR 0x01), (0x3001, 0x00)]) = 2)"
proof (intro conjI impI allI)
  fix n
  show "bit (flip_byte imx ctrl) n =
          (if n = flip_bit ctrl then ctrl_val ctrl \<noteq> 0 else bit (reg_3007 imx) n)"
    by (rule flip_byte_bits)
next
  assume "\<not> bus (regmap imx) 0x3001 0x01 < 0 \<and>
       \<not> bus (regmap imx @ [(0x3001, 0x01)]) 0x3007 (flip_byte imx ctrl) < 0 \<and>
       \<not> bus (regmap imx @ [(0x3001, 0x01), (0x3007, flip_byte imx ctrl)]) 0x3001 0x00 < 0"
  then show "imx290_set_flip bus imx ctrl =
         (0, imx\<lparr>regmap := regmap imx @
                   [(0x3001, 0x01), (0x3007, flip_byte imx ctrl), (0x3001, 0x00)],
               reg_3007 := flip_byte imx ctrl\<rparr>)"
    by (simp add: set_flip_result)
next
  assume "bus (regmap imx) 0x3001 0x01 < 0"
  then show "imx290_set_flip bus imx ctrl =
         (bus (regmap imx) 0x3001 0x01, imx\<lparr>regmap := regmap imx @ [(0x3001, 0x01)]\<rparr>)"
    by (simp add: set_flip_result)
next
  assume "\<not> bus (regmap imx) 0x3001 0x01 < 0 \<and>
       bus (regmap imx @ [(0x3001, 0x01)]) 0x3007 (flip_byte imx ctrl) < 0"
  then show "imx290_set_flip bus imx ctrl =
         (bus (regmap imx @ [(0x3001, 0x01)]) 0x3007 (flip_byte imx ctrl),
          imx\<lparr>regmap := regmap imx @ [(0x3001, 0x01), (0x3007, flip_byte imx ctrl)]\<rparr>)"
    by (simp add: set_flip_result)
next
  assume "\<not> bus (regmap imx) 0x3001 0x01 < 0 \<and>
       \<not> bus (regmap imx @ [(0x3001, 0x01)]) 0x3007 (flip_byte imx ctrl) < 0 \<and>
       bus (regmap imx @ [(0x3001, 0x01), (0x3007, flip_byte imx ctrl)]) 0x3001 0x00 < 0"
  then show "imx290_set_flip bus imx ctrl =
         (bus (regmap imx @ [(0x3001, 0x01), (0x3007, flip_byte imx ctrl)]) 0x3001 0x00,
          imx\<lparr>regmap := regmap imx @
                 [(0x3001, 0x01), (0x3007, flip_byte imx ctrl), (0x3001, 0x00)]\<rparr>)"
    by (simp add: set_flip_result)
next
  assume ok: "\<forall>tr a v. \<not> bus tr a v < 0"
  show "imx290_set_flip bus imx \<lparr>ctrl_id = V4L2_CID_HFLIP, ctrl_val = 1, maximum = 1\<rparr> =
         (0, imx\<lparr>regmap := regmap imx @
                   [(0x3001, 0x01), (0x3007, reg_3007 imx OR 0x02), (0x3001, 0x00)],
               reg_3007 := reg_3007 imx OR 0x02\<rparr>)"
    using ok by (simp add: set_flip_result flip_byte_hflip_on)
  show "imx290_set_flip bus
           (imx\<lparr>regmap := regmap imx @
                   [(0x3001, 0x01), (0x3007, reg_3007 imx OR 0x02), (0x3001, 0x00)],
               reg_3007 := reg_3007 imx OR 0x02\<rparr>)
           \<lparr>ctrl_id = V4L2_CID_VFLIP, ctrl_val = 1, maximum = 1\<rparr> =
         (0, imx\<lparr>regmap := regmap imx @
                   [(0x3001, 0x01), (0x3007, reg_3007 imx OR 0x02), (0x3001, 0x00),
                    (0x3001, 0x01), (0x3007, reg_3007 imx OR 0x02 OR 0x01), (0x3001, 0x00)],
               reg_3007 := reg_3007 imx OR 0x02 OR 0x01\<rparr>)"
    using ok by (simp add: set_flip_result flip_byte_vflip_on or.assoc)
  show "length (filter (\<lambda>w. fst w = (0x3007 :: u16))
                [(0x3001, 0x01), (0x3007, reg_3007 imx OR 0x02), (0x3001, 0x00),
                 (0x3001, 0x01), (0x3007, reg_3007 imx OR 0x02 OR 0x01), (0x3001, 0x00)]) = 2"
    by simp
qed

text \<open>
  On the probed device (cache 0): with a bus that accepts every write both updates
  return 0, the cache ends at 0x03, and the trace holds the two bracketed writes to
  0x3007. On a bus that fails the hold write, the write to 0x3007 or the release write
  with \<open>-5\<close>, the H-flip update returns \<open>-5\<close> right after that write and the cache stays 0.
\<close>

theorem imx290_set_flip_cache_witness:
  "imx290_set_flip (\<lambda>tr a v. 0) imx290_probed
       \<lparr>ctrl_id = V4L2_CID_HFLIP, ctrl_val = 1, maximum = 1\<rparr>
     = (0, imx290_probed\<lparr>regmap := [(0x3001, 0x01), (0x3007, 0x02), (0x3001, 0x00)],
                          reg_3007 := 0x02\<rparr>)
   \<and> imx290_set_flip (\<lambda>tr a v. 0)
       (imx290_probed\<lparr>regmap := [(0x3001, 0x01), (0x3007, 0x02), (0x3001, 0x00)],
                       reg_3007 := 0x02\<rparr>)
       \<lparr>ctrl_id = V4L2_CID_VFLIP, ctrl_val = 1, maximum = 1\<rparr>
     = (0, imx290_probed\<lparr>regmap := [(0x3001, 0x01), (0x3007, 0x02), (0x3001, 0x00),
                                      (0x3001, 0x01), (0x3007, 0x03), (0x3001, 0x00)],
                          reg_3007 := 0x03\<rparr>)
   \<and> imx290_set_flip (\<lambda>tr a v. if length tr = 0 then - 5 else 0) imx290_probed
       \<lparr>ctrl_id = V4L2_CID_HFLIP, ctrl_val = 1, maximum = 1\<rparr>
     = (- 5, imx290_probed\<lparr>regmap := [(0x3001, 0x01)]\<rparr>)
   \<and> imx290_set_flip (\<lambda>tr a v. if length tr = 1 then - 5 else 0) imx290_probed
       \<lparr>ctrl_id = V4L2_CID_HFLIP, ctrl_val = 1, maximum = 1\<rparr>
     = (- 5, imx290_probed\<lparr>regmap := [(0x3001, 0x01), (0x3007, 0x02)]\<rparr>)
   \<and> imx290_set_flip (\<lambda>tr a v. if length tr = 2 then - 5 else 0) imx290_probed
       \<lparr>ctrl_id = V4L2_CID_HFLIP, ctrl_val = 1, maximum = 1\<rparr>
     = (- 5, imx290_probed\<lparr>regmap := [(0x3001, 0x01), (0x3007, 0x02), (0x3001, 0x00)]\<rparr>)
   \<and> reg_3007 (imx290_probed\<lparr>regmap := [(0x3001, 0x01), (0x3007, 0x02), (0x3001, 0x00)]\<rparr>) = 0"
  using imx290_set_flip_cache
     [where bus = "\<lambda>tr a v. 0" and imx = imx290_probed
        and ctrl = "\<lparr>ctrl_id = V4L2_CID_HFLIP, ctrl_val = 1, maximum = 1\<rparr>"]
    imx290_set_flip_cache
     [where bus = "\<lambda>tr a v. if length tr = 0 then - 5 else 0" and imx = imx290_probed
        and ctrl = "\<lparr>ctrl_id = V4L2_CID_HFLIP, ctrl_val = 1, maximum = 1\<rparr>"]
    imx290_set_flip_cache
     [where bus = "\<lambda>tr a v. if length tr = 1 then - 5 else 0" and imx = imx290_probed
        and ctrl = "\<lparr>ctrl_id = V4L2_CID_HFLIP, ctrl_val = 1, maximum = 1\<rparr>"]
    imx290_set_flip_cache
     [where bus = "\<lambda>tr a v. if length tr = 2 then - 5 else 0" and imx = imx290_probed
        and ctrl = "\<lparr>ctrl_id = V4L2_CID_HFLIP, ctrl_val = 1, maximum = 1\<rparr>"]
  by (simp add: set_flip_result flip_byte_hflip_on flip_byte_vflip_on imx290_probed_def)

subsection \<open>Exposure\<close>

lemma sdiv_nonneg_pos: "0 \<le> k \<Longrightarrow> 0 < l \<Longrightarrow> (k :: int) sdiv l = k div l"
  by (cases "k = 0") (simp_all add: signed_divide_int_def)

lemma uint_of_int_u32: "0 \<le> x \<Longrightarrow> x < 2 ^ 32 \<Longrightarrow> uint (word_of_int x :: u32) = x"
  by (simp add: uint_word_of_int)

text \<open>
  Without wrap-around in the product the value computed is the floor formula, read
  modulo \<open>2 ^ 32\<close>.
\<close>

lemma exposure_val_word:
  assumes vm: "2 \<le> uint vm" and mx: "0 < sint mx"
    and nowrap: "uint cv * (uint vm - 2) < 2 ^ 32"
  shows "imx290_exposure_val vm cv mx =
           word_of_int (uint vm - 2 - max 1 (uint cv * (uint vm - 2) div sint mx))"
proof -
  let ?q = "uint cv * (uint vm - 2) div sint mx"
  have sub: "uint (vm - 2) = uint vm - 2"
    using vm uint_sub_lem[of 2 vm] by simp
  have mul: "uint (cv * (vm - 2)) = uint cv * (uint vm - 2)"
    using nowrap uint_mult_lem[of cv "vm - 2"] sub by simp
  have prod0: "0 \<le> uint cv * (uint vm - 2)"
    using vm by simp
  have q0: "0 \<le> ?q"
    using prod0 mx by (simp add: pos_imp_zdiv_nonneg_iff)
  have "?q \<le> uint cv * (uint vm - 2)"
    using zdiv_mono2[of "uint cv * (uint vm - 2)" 1 "sint mx"] prod0 mx by simp
  then have qlt: "?q < 2 ^ 32"
    using nowrap by linarith
  have sd: "uint (cv * (vm - 2)) sdiv sint mx = ?q"
    using mul prod0 mx by (simp add: sdiv_nonneg_pos)
  have "uint (word_of_int ?q :: u32) = ?q"
    using q0 qlt by (rule uint_of_int_u32)
  then have z: "((word_of_int ?q :: u32) = 0) = (?q = 0)"
    by (metis uint_0_eq word_of_int_0)
  have v3: "(if (word_of_int ?q :: u32) = 0 then 1 else word_of_int ?q) =
              (word_of_int (max 1 ?q) :: u32)"
    using q0 z by (auto simp: max_def)
  show ?thesis
    unfolding imx290_exposure_val_def Let_def sd v3
    by simp
qed

text \<open>With a control value within its range the subtraction does not wrap either.\<close>

lemma exposure_val_int:
  assumes vm: "2 < uint vm" and mx: "0 < sint mx" and le: "uint cv \<le> sint mx"
    and nowrap: "uint cv * (uint vm - 2) < 2 ^ 32"
  shows "uint (imx290_exposure_val vm cv mx) =
           uint vm - 2 - max 1 (uint cv * (uint vm - 2) div sint mx)"
proof -
  let ?q = "uint cv * (uint vm - 2) div sint mx"
  have "uint cv * (uint vm - 2) \<le> sint mx * (uint vm - 2)"
    using le vm by (simp add: mult_right_mono)
  then have "?q \<le> (sint mx * (uint vm - 2)) div sint mx"
    using mx zdiv_mono1[of "uint cv * (uint vm - 2)" "sint mx * (uint vm - 2)" "sint mx"]
    by blast
  moreover have "(sint mx * (uint vm - 2)) div sint mx = uint vm - 2"
    using mx by simp
  ultimately have qle: "?q \<le> uint vm - 2"
    by linarith
  have lo: "0 \<le> uint vm - 2 - max 1 ?q"
    using qle vm by (simp add: max_def)
  have "uint vm < 2 ^ 32"
    using uint_lt2p[of vm] by simp
  then have hi: "uint vm - 2 - max 1 ?q < 2 ^ 32"
    by (simp add: max_def)
  have "imx290_exposure_val vm cv mx = word_of_int (uint vm - 2 - max 1 ?q)"
    using vm mx nowrap by (intro exposure_val_word) simp_all
  then show ?thesis
    using uint_of_int_u32[OF lo hi] by (simp only:)
qed

text \<open>The delta \<open>vmax - 2 - raw\<close> is the clamped quotient, which is never zero.\<close>

lemma exposure_delta_nonzero: "vm - 2 - imx290_exposure_val vm cv mx \<noteq> 0"
  by (simp add: imx290_exposure_val_def Let_def)

lemma exposure_delta_ge_1: "1 \<le> uint (vm - 2 - imx290_exposure_val vm cv mx)"
proof -
  have "uint (vm - 2 - imx290_exposure_val vm cv mx) \<noteq> 0"
    using exposure_delta_nonzero[of vm cv mx] by (simp add: uint_0_iff)
  moreover have "0 \<le> uint (vm - 2 - imx290_exposure_val vm cv mx)"
    by simp
  ultimately show ?thesis by linarith
qed

lemma ff_mask: "(0xff :: u32) = mask 8"
  by (simp add: mask_eq_exp_minus_1)

lemma exposure_byte0: "ucast (drop_bit 0 (v :: u32) AND 0xff) = (ucast v :: u8)"
  unfolding ff_mask by (rule bit_word_eqI) (auto simp: bit_simps)

lemma exposure_byte1: "ucast (drop_bit 8 (v :: u32) AND 0xff) = (ucast (drop_bit 8 v) :: u8)"
  unfolding ff_mask by (rule bit_word_eqI) (auto simp: bit_simps)

lemma exposure_byte2:
  "ucast (drop_bit 16 (v :: u32) AND 0x01) = (ucast (drop_bit 16 v) :: u8) AND 1"
  by (rule bit_word_eqI) (auto simp: bit_simps)

text \<open>
  C4, as the specification states it: \<open>raw = vmax - 2 - round(c * (vmax - 2) / ctrl_max)\<close>.
  With \<open>vmax = 1125\<close> (the 1080p mode), the driver's \<open>ctrl_max = 10000\<close> and \<open>c = 14\<close> the
  quotient is 1.5722: rounding gives 2 and \<open>raw = 1121\<close>, while the C division truncates
  to 1 and the driver writes \<open>raw = 1122 = 0x462\<close> to registers 0x3020-0x3022.
\<close>

theorem imx290_set_exposure_round_counterexample:
  "imx290_set_exposure (\<lambda>tr a v. 0) (imx290_probed\<lparr>vmax := 1125\<rparr>)
       \<lparr>ctrl_id = V4L2_CID_EXPOSURE, ctrl_val = 14, maximum = 10000\<rparr>
     = Some (0, imx290_probed\<lparr>vmax := 1125,
                regmap := [(0x3001, 0x01), (0x3020, 0x62), (0x3021, 0x04), (0x3022, 0x00),
                           (0x3001, 0x00)]\<rparr>)
   \<and> uint (imx290_exposure_val 1125 14 10000) = 1122
   \<and> spec_exposure_raw 1125 14 10000 = 1121
   \<and> uint (imx290_exposure_val 1125 14 10000) \<noteq> spec_exposure_raw 1125 14 10000"
  by (simp add: imx290_set_exposure_def imx290_exposure_val_def Let_def signed_divide_int_def
        settings_match_zero write_reg_eq imx290_probed_def spec_exposure_raw_def
        spec_round_div_def)

text \<open>
  C4, amended. While \<open>vmax\<close> is zero the update returns 0 and changes nothing. For
  \<open>vmax > 2\<close>, \<open>ctrl_max > 0\<close> and a control value \<open>c\<close> in \<open>0..ctrl_max\<close> whose product
  \<open>c * (vmax - 2)\<close> fits 32 bits, the value computed is
  \<open>raw = vmax - 2 - max 1 (floor (c * (vmax - 2) / ctrl_max))\<close>. For all inputs the delta
  \<open>vmax - 2 - raw\<close> is not zero. With \<open>vmax\<close> and \<open>ctrl_max\<close> non-zero and a bus that accepts
  every write, the update returns 0 after the hold write, the three writes of the low
  byte, the middle byte and bit 16 of \<open>raw\<close> to 0x3020-0x3022, and the release write.
\<close>

theorem imx290_set_exposure_floor:
  "(vmax imx = 0 \<longrightarrow> imx290_set_exposure bus imx ctrl = Some (0, imx))
   \<and> (2 < uint (vmax imx) \<and> 0 < sint (maximum ctrl) \<and> uint (ctrl_val ctrl) \<le> sint (maximum ctrl) \<and>
       uint (ctrl_val ctrl) * (uint (vmax imx) - 2) < 2 ^ 32 \<longrightarrow>
       uint (imx290_exposure_val (vmax imx) (ctrl_val ctrl) (maximum ctrl)) =
         uint (vmax imx) - 2 -
           max 1 (uint (ctrl_val ctrl) * (uint (vmax imx) - 2) div sint (maximum ctrl)))
   \<and> vmax imx - 2 - imx290_exposure_val (vmax imx) (ctrl_val ctrl) (maximum ctrl) \<noteq> 0
   \<and> (vmax imx \<noteq> 0 \<and> maximum ctrl \<noteq> 0 \<and> (\<forall>tr a v. \<not> bus tr a v < 0) \<longrightarrow>
       imx290_set_exposure bus imx ctrl =
         Some (0, imx\<lparr>regmap := regmap imx @
           [(0x3001, 0x01),
            (0x3020, ucast (imx290_exposure_val (vmax imx) (ctrl_val ctrl) (maximum ctrl))),
            (0x3021, ucast (drop_bit 8
                       (imx290_exposure_val (vmax imx) (ctrl_val ctrl) (maximum ctrl)))),
            (0x3022, ucast (drop_bit 16
                       (imx290_exposure_val (vmax imx) (ctrl_val ctrl) (maximum ctrl))) AND 1),
            (0x3001, 0x00)]\<rparr>))"
proof (intro conjI impI)
  assume "vmax imx = 0"
  then show "imx290_set_exposure bus imx ctrl = Some (0, imx)"
    by (simp add: imx290_set_exposure_def)
next
  assume "2 < uint (vmax imx) \<and> 0 < sint (maximum ctrl) \<and> uint (ctrl_val ctrl) \<le> sint (maximum ctrl) \<and>
       uint (ctrl_val ctrl) * (uint (vmax imx) - 2) < 2 ^ 32"
  then show "uint (imx290_exposure_val (vmax imx) (ctrl_val ctrl) (maximum ctrl)) =
         uint (vmax imx) - 2 -
           max 1 (uint (ctrl_val ctrl) * (uint (vmax imx) - 2) div sint (maximum ctrl))"
    by (intro exposure_val_int) simp_all
next
  show "vmax imx - 2 - imx290_exposure_val (vmax imx) (ctrl_val ctrl) (maximum ctrl) \<noteq> 0"
    by (rule exposure_delta_nonzero)
next
  assume a: "vmax imx \<noteq> 0 \<and> maximum ctrl \<noteq> 0 \<and> (\<forall>tr a v. \<not> bus tr a v < 0)"
  then have ok: "\<And>tr a v. (bus tr a v < 0) = False" by simp
  from a show "imx290_set_exposure bus imx ctrl =
         Some (0, imx\<lparr>regmap := regmap imx @
           [(0x3001, 0x01),
            (0x3020, ucast (imx290_exposure_val (vmax imx) (ctrl_val ctrl) (maximum ctrl))),
            (0x3021, ucast (drop_bit 8
                       (imx290_exposure_val (vmax imx) (ctrl_val ctrl) (maximum ctrl)))),
            (0x3022, ucast (drop_bit 16
                       (imx290_exposure_val (vmax imx) (ctrl_val ctrl) (maximum ctrl))) AND 1),
            (0x3001, 0x00)]\<rparr>)"
    unfolding imx290_set_exposure_def Let_def sra_always ok
      exposure_byte0 exposure_byte1 exposure_byte2
    by simp
qed

text \<open>
  Half of the range on the 1080p mode: \<open>5000 * 1123 / 10000 = 561.5\<close>, truncated to 561,
  so \<open>raw = 562 = 0x232\<close>; and the update on the probed device, whose \<open>vmax\<close> is still 0.
\<close>

theorem imx290_set_exposure_floor_witness:
  "imx290_set_exposure (\<lambda>tr a v. 0) imx290_probed
       \<lparr>ctrl_id = V4L2_CID_EXPOSURE, ctrl_val = 5000, maximum = 10000\<rparr>
     = Some (0, imx290_probed)
   \<and> uint (imx290_exposure_val 1125 5000 10000) = 562
   \<and> imx290_set_exposure (\<lambda>tr a v. 0) (imx290_probed\<lparr>vmax := 1125\<rparr>)
       \<lparr>ctrl_id = V4L2_CID_EXPOSURE, ctrl_val = 5000, maximum = 10000\<rparr>
     = Some (0, imx290_probed\<lparr>vmax := 1125,
                regmap := [(0x3001, 0x01), (0x3020, 0x32), (0x3021, 0x02), (0x3022, 0x00),
                           (0x3001, 0x00)]\<rparr>)"
  using imx290_set_exposure_floor
     [of imx290_probed "\<lambda>tr a v. 0"
         "\<lparr>ctrl_id = V4L2_CID_EXPOSURE, ctrl_val = 5000, maximum = 10000\<rparr>"]
    imx290_set_exposure_floor
     [of "imx290_probed\<lparr>vmax := 1125\<rparr>" "\<lambda>tr a v. 0"
         "\<lparr>ctrl_id = V4L2_CID_EXPOSURE, ctrl_val = 5000, maximum = 10000\<rparr>"]
  by (simp add: imx290_probed_def imx290_exposure_val_def Let_def signed_divide_int_def
        imx290_set_exposure_def settings_match_zero write_reg_eq)

text \<open>
  C5, as the specification states it, for every \<open>vmax > 2\<close> and \<open>ctrl_max > 0\<close>. The
  product \<open>c * (vmax - 2)\<close> is an \<open>unsigned int\<close>: with \<open>vmax = 1125\<close> and
  \<open>ctrl_max = 4000000\<close> it is \<open>4294352000\<close> at \<open>c = 3824000\<close> (\<open>raw = 50\<close>) and wraps to
  \<open>507704\<close> at \<open>c = 3825000\<close> (\<open>raw = 1122\<close>): the raw value grows with the control value.
\<close>

theorem imx290_exposure_monotone_counterexample:
  "uint (imx290_exposure_val 1125 3824000 4000000) = 50
   \<and> uint (imx290_exposure_val 1125 3825000 4000000) = 1122
   \<and> \<not> uint (imx290_exposure_val 1125 3825000 4000000)
         \<le> uint (imx290_exposure_val 1125 3824000 4000000)"
  by (simp add: imx290_exposure_val_def Let_def signed_divide_int_def)

text \<open>
  C5, amended. For \<open>vmax > 2\<close>, \<open>ctrl_max > 0\<close> and control values \<open>c1 \<le> c2 \<le> ctrl_max\<close> with
  \<open>c2 * (vmax - 2)\<close> fitting 32 bits (every value of the range when
  \<open>ctrl_max * (vmax - 2) < 2 ^ 32\<close>, as for the driver's \<open>ctrl_max = 10000\<close> and its two
  values of \<open>vmax\<close>), the raw value at \<open>c2\<close> is at most the raw value at \<open>c1\<close>; and the
  delta \<open>vmax - 2 - raw\<close> is at least 1 at both.
\<close>

theorem imx290_exposure_monotone:
  assumes vm: "2 < uint vm" and mx: "0 < sint mx"
    and c12: "uint c1 \<le> uint c2" and le: "uint c2 \<le> sint mx"
    and nowrap: "uint c2 * (uint vm - 2) < 2 ^ 32"
  shows "uint (imx290_exposure_val vm c2 mx) \<le> uint (imx290_exposure_val vm c1 mx)
         \<and> 1 \<le> uint (vm - 2 - imx290_exposure_val vm c1 mx)
         \<and> 1 \<le> uint (vm - 2 - imx290_exposure_val vm c2 mx)"
proof -
  have p: "uint c1 * (uint vm - 2) \<le> uint c2 * (uint vm - 2)"
    using c12 vm by (simp add: mult_right_mono)
  then have q: "uint c1 * (uint vm - 2) div sint mx \<le> uint c2 * (uint vm - 2) div sint mx"
    using mx by (simp add: zdiv_mono1)
  have "uint c1 * (uint vm - 2) < 2 ^ 32"
    using p nowrap by linarith
  then have e1: "uint (imx290_exposure_val vm c1 mx) =
           uint vm - 2 - max 1 (uint c1 * (uint vm - 2) div sint mx)"
    using exposure_val_int[of vm mx c1] vm mx c12 le by simp
  have e2: "uint (imx290_exposure_val vm c2 mx) =
           uint vm - 2 - max 1 (uint c2 * (uint vm - 2) div sint mx)"
    using exposure_val_int[of vm mx c2] vm mx le nowrap by simp
  have "uint (imx290_exposure_val vm c2 mx) \<le> uint (imx290_exposure_val vm c1 mx)"
    using q unfolding e1 e2 by (simp add: max_def)
  then show ?thesis
    using exposure_delta_ge_1[of vm c1 mx] exposure_delta_ge_1[of vm c2 mx] by simp
qed

text \<open>The driver's range on the 1080p mode: \<open>raw\<close> is 1112 at \<open>c = 100\<close> and 113 at \<open>c = 9000\<close>.\<close>

theorem imx290_exposure_monotone_witness:
  "uint (imx290_exposure_val 1125 9000 10000) \<le> uint (imx290_exposure_val 1125 100 10000)
   \<and> uint (imx290_exposure_val 1125 100 10000) = 1112
   \<and> uint (imx290_exposure_val 1125 9000 10000) = 113
   \<and> 1 \<le> uint (1125 - 2 - imx290_exposure_val 1125 9000 10000)"
  using imx290_exposure_monotone[of 1125 10000 100 9000]
  by (simp add: imx290_exposure_val_def Let_def signed_divide_int_def)

subsection \<open>Pixel rate\<close>

lemma u8_bound: "unat (x :: u8) < 256"
  using unsigned_less[of x, where 'a = nat] by simp

lemma u32_bound: "unat (x :: u32) < 4294967296"
  using unsigned_less[of x, where 'a = nat] by simp

lemma unat_ucast_u8_u64: "unat (ucast (x :: u8) :: u64) = unat x"
proof -
  have "unat x < 2 ^ 64"
    using u8_bound[of x] by simp
  then show ?thesis
    by (simp add: unsigned_ucast_eq take_bit_nat_eq_self)
qed

lemma unat_ucast_u32_u64: "unat (ucast (x :: u32) :: u64) = unat x"
proof -
  have "unat x < 2 ^ 64"
    using u32_bound[of x] by simp
  then show ?thesis
    by (simp add: unsigned_ucast_eq take_bit_nat_eq_self)
qed

text \<open>The selector of \<open>imx290_link_freqs_ptr\<close> takes its four listed values only.\<close>

lemma link_freqs_ptr_cases:
  "imx290_link_freqs_ptr imx =
     Some (if nlanes imx = 4
           then (if inck imx = INCK_74 then imx290_link_freq_4lanes_74mhz
                 else imx290_link_freq_4lanes_37mhz)
           else (if inck imx = INCK_74 then imx290_link_freq_2lanes_74mhz
                 else imx290_link_freq_2lanes_37mhz))"
  by (simp add: imx290_link_freqs_ptr_def)

lemmas link_freq_tables =
  imx290_link_freq_2lanes_37mhz_def imx290_link_freq_4lanes_37mhz_def
  imx290_link_freq_2lanes_74mhz_def imx290_link_freq_4lanes_74mhz_def

lemma nth_pair: "i < 2 \<Longrightarrow> [a, b] ! i = (if i = 0 then a else b)"
  by (cases i) auto

text \<open>Every link frequency the driver can look up is one of the table: at most 891 MHz.\<close>

lemma get_link_freq_bound:
  assumes "imx290_get_link_freq imx = Some lf"
  shows "unat lf \<le> 891000000"
proof -
  from assms obtain m where m: "current_mode imx = Some m"
    by (auto simp: imx290_get_link_freq_def imx290_get_link_freq_index_def split: option.splits)
  from assms m have i: "unat (link_freq_index m) < 2"
    by (auto simp: imx290_get_link_freq_def imx290_get_link_freq_index_def link_freqs_ptr_cases
          link_freq_tables split: if_splits)
  from assms m i show ?thesis
    by (auto simp: imx290_get_link_freq_def imx290_get_link_freq_index_def link_freqs_ptr_cases
          link_freq_tables nth_pair split: if_splits)
qed

text \<open>Below that bound neither product wraps in 64 bits, and \<open>do_div\<close> is the floor.\<close>

lemma pixel_rate_arith:
  assumes lf: "unat (lf :: u64) \<le> 891000000" and bp: "bp \<noteq> (0 :: u8)"
  shows "unat ((lf * 2 * ucast (nl :: u8)) div ucast bp) = (unat lf * 2 * unat nl) div unat bp"
proof -
  have "unat lf * 2 * unat nl \<le> 891000000 * 2 * 256"
    using lf u8_bound[of nl] by (intro mult_mono) simp_all
  then have small: "unat lf * 2 * unat nl < 2 ^ 64"
    by simp
  have small2: "unat lf * 2 < 2 ^ 64"
    using lf by simp
  have two: "unat (lf * 2) = unat lf * 2"
    using small2 unat_mult_lem[of lf 2] by simp
  have "unat (lf * 2 * ucast nl) = unat (lf * 2) * unat (ucast nl :: u64)"
    using small two unat_mult_lem[of "lf * 2" "ucast nl :: u64"]
    by (simp add: unat_ucast_u8_u64)
  then have "unat (lf * 2 * ucast nl) = unat lf * 2 * unat nl"
    using two by (simp add: unat_ucast_u8_u64)
  then show ?thesis
    by (simp add: unat_div unat_ucast_u8_u64)
qed

text \<open>
  C6. For every device with 2 or 4 lanes and 10 or 12 bits per pixel whose link-frequency
  lookup yields \<open>link_freq\<close>, \<open>imx290_calc_pixel_rate\<close> returns a pixel rate, it equals
  \<open>floor (link_freq * 2 * lanes / bpp)\<close>, and
  \<open>pixel_rate * bpp \<le> link_freq * 2 * lanes < pixel_rate * bpp + bpp\<close>.
\<close>

theorem imx290_calc_pixel_rate_floor:
  assumes "imx290_get_link_freq imx = Some lf"
    and "nlanes imx = 2 \<or> nlanes imx = 4"
    and "bpp imx = 10 \<or> bpp imx = 12"
  shows "\<exists>pr. imx290_calc_pixel_rate imx = Some pr \<and>
           unat pr = (unat lf * 2 * unat (nlanes imx)) div unat (bpp imx) \<and>
           unat pr * unat (bpp imx) \<le> unat lf * 2 * unat (nlanes imx) \<and>
           unat lf * 2 * unat (nlanes imx) < unat pr * unat (bpp imx) + unat (bpp imx)"
proof -
  have b0: "bpp imx \<noteq> 0" using assms(3) by auto
  have bpos: "0 < unat (bpp imx)" using assms(3) by auto
  let ?pr = "(lf * 2 * ucast (nlanes imx)) div ucast (bpp imx)"
  let ?n = "unat lf * 2 * unat (nlanes imx)"
  have calc: "imx290_calc_pixel_rate imx = Some ?pr"
    using assms(1) b0 by (simp add: imx290_calc_pixel_rate_def Let_def)
  have u: "unat ?pr = ?n div unat (bpp imx)"
    using get_link_freq_bound[OF assms(1)] b0 by (rule pixel_rate_arith)
  have lo: "(?n div unat (bpp imx)) * unat (bpp imx) \<le> ?n"
    by simp
  have hi: "?n < (?n div unat (bpp imx)) * unat (bpp imx) + unat (bpp imx)"
    using bpos dividend_less_div_times[of "unat (bpp imx)" ?n] by (simp add: mult.commute)
  show ?thesis
    using calc u lo hi by simp
qed

text \<open>
  The probed device: two lanes, 37.125 MHz, 1080p, 10 bits. The link frequency is
  445500000 and the pixel rate 178200000.
\<close>

theorem imx290_calc_pixel_rate_floor_witness:
  "imx290_get_link_freq imx290_probed = Some 445500000
   \<and> imx290_calc_pixel_rate imx290_probed = Some 178200000
   \<and> (178200000 :: nat) * 10 \<le> 445500000 * 2 * 2
   \<and> (445500000 :: nat) * 2 * 2 < 178200000 * 10 + 10"
  using imx290_calc_pixel_rate_floor[of imx290_probed 445500000]
  by (simp add: imx290_calc_pixel_rate_def imx290_get_link_freq_def
        imx290_get_link_freq_index_def imx290_link_freqs_ptr_def link_freq_tables
        imx290_probed_def FREQ_INDEX_1080P_def Let_def)

subsection \<open>Frame interval\<close>

text \<open>The comparison of the loop, made in 64 bits, is the comparison of the numbers.\<close>

lemma cmp_u64:
  assumes "k \<le> 60"
  shows "((ucast (b :: u32) :: u64) * 1 \<le> ucast (a :: u32) * of_nat k) = (unat b \<le> unat a * k)"
proof -
  have "unat a * k < 2 ^ 64"
    using u32_bound[of a] assms
    by (intro le_less_trans[OF mult_le_mono[of "unat a" 4294967296 k 60]]) simp_all
  then have "unat ((ucast a :: u64) * of_nat k) = unat a * k"
    using assms by (simp add: unat_word_ariths unat_ucast_u32_u64 unat_of_nat)
  then show ?thesis
    by (simp add: word_le_nat_alt unat_ucast_u32_u64)
qed

lemma loop_step:
  "frame_interval_loop (ucast n) (ucast d) m (i # rest) =
     (if spec_rate_ge i \<lparr>numerator = n, denominator = d\<rparr> then i
      else frame_interval_loop (ucast n) (ucast d) i rest)"
proof (cases i)
  case FPS_25
  then show ?thesis using cmp_u64[of 25 d n] by (simp add: spec_rate_ge_def mult.commute)
next
  case FPS_30
  then show ?thesis using cmp_u64[of 30 d n] by (simp add: spec_rate_ge_def mult.commute)
next
  case FPS_50
  then show ?thesis using cmp_u64[of 50 d n] by (simp add: spec_rate_ge_def mult.commute)
next
  case FPS_60
  then show ?thesis using cmp_u64[of 60 d n] by (simp add: spec_rate_ge_def mult.commute)
qed

lemma fps_rate_simps:
  "fps_rate FPS_25 = 25" "fps_rate FPS_30 = 30" "fps_rate FPS_50 = 50" "fps_rate FPS_60 = 60"
  by (simp_all add: fps_rate_def)

lemma spec_rate_ge_simps:
  "spec_rate_ge FPS_25 iv = (unat (denominator iv) \<le> unat (numerator iv) * 25)"
  "spec_rate_ge FPS_30 iv = (unat (denominator iv) \<le> unat (numerator iv) * 30)"
  "spec_rate_ge FPS_50 iv = (unat (denominator iv) \<le> unat (numerator iv) * 50)"
  "spec_rate_ge FPS_60 iv = (unat (denominator iv) \<le> unat (numerator iv) * 60)"
  by (simp_all add: spec_rate_ge_def)

lemma fps_exhaust: "(\<exists>g. P g) = (P FPS_25 \<or> P FPS_30 \<or> P FPS_50 \<or> P FPS_60)"
  by (metis imx290_fps.exhaust)

text \<open>The loop picks the first class, in table order, whose rate is enough, else the last.\<close>

lemma s_frame_interval_eq:
  "mipi_csis_s_frame_interval imx iv =
    (let m = (if spec_rate_ge FPS_25 iv then FPS_25
              else if spec_rate_ge FPS_30 iv then FPS_30
              else if spec_rate_ge FPS_50 iv then FPS_50
              else FPS_60)
     in (0, imx\<lparr>fps := m\<rparr>, imx290_intervals m))"
proof -
  have iv: "iv = \<lparr>numerator = numerator iv, denominator = denominator iv\<rparr>" by simp
  show ?thesis
    unfolding mipi_csis_s_frame_interval_def Let_def loop_step
    by (subst (1 2 3 4 5 6 7 8) iv[symmetric]) simp
qed

text \<open>
  C8, as the specification states it, for every requested interval. A request for 120
  frames per second (interval 1/120) is faster than every class: the loop runs to its end
  and the 60 fps class is stored, whose rate is not at least the requested one.
\<close>

theorem mipi_csis_s_frame_interval_counterexample:
  "fps (fst (snd (mipi_csis_s_frame_interval imx290_probed
                    \<lparr>numerator = 1, denominator = 120\<rparr>))) = FPS_60
   \<and> \<not> spec_rate_ge FPS_60 \<lparr>numerator = 1, denominator = 120\<rparr>
   \<and> \<not> spec_smallest_class
         (fps (fst (snd (mipi_csis_s_frame_interval imx290_probed
                           \<lparr>numerator = 1, denominator = 120\<rparr>))))
         \<lparr>numerator = 1, denominator = 120\<rparr>"
  by (simp add: mipi_csis_s_frame_interval_def Let_def spec_smallest_class_def spec_rate_ge_def)

text \<open>
  C8, amended. For every requested interval the operation returns 0, stores a class as
  the frame-rate class of the device, changes nothing else, and hands the interval of
  that class back. When some class has a rate at least the requested one, the class
  stored is the one of smallest rate among them; when none has, it is the 60 fps class.
\<close>

theorem mipi_csis_s_frame_interval_class:
  "\<exists>m. mipi_csis_s_frame_interval imx iv = (0, imx\<lparr>fps := m\<rparr>, imx290_intervals m) \<and>
       ((\<exists>g. spec_rate_ge g iv) \<longrightarrow> spec_smallest_class m iv) \<and>
       (\<not> (\<exists>g. spec_rate_ge g iv) \<longrightarrow> m = FPS_60)"
  unfolding s_frame_interval_eq Let_def fps_exhaust
  by (auto simp: spec_smallest_class_def fps_rate_simps spec_rate_ge_simps)

text \<open>
  On the probed device a request for 40 frames per second selects the 50 fps class, and
  a request for 120 frames per second, which no class reaches, the 60 fps class.
\<close>

theorem mipi_csis_s_frame_interval_class_witness:
  "mipi_csis_s_frame_interval imx290_probed \<lparr>numerator = 1, denominator = 40\<rparr>
     = (0, imx290_probed\<lparr>fps := FPS_50\<rparr>, \<lparr>numerator = 1, denominator = 50\<rparr>)
   \<and> spec_rate_ge FPS_50 \<lparr>numerator = 1, denominator = 40\<rparr>
   \<and> spec_smallest_class FPS_50 \<lparr>numerator = 1, denominator = 40\<rparr>
   \<and> mipi_csis_s_frame_interval imx290_probed \<lparr>numerator = 1, denominator = 120\<rparr>
     = (0, imx290_probed\<lparr>fps := FPS_60\<rparr>, \<lparr>numerator = 1, denominator = 60\<rparr>)
   \<and> \<not> (\<exists>g. spec_rate_ge g \<lparr>numerator = 1, denominator = 120\<rparr>)"
  using mipi_csis_s_frame_interval_class[of imx290_probed "\<lparr>numerator = 1, denominator = 40\<rparr>"]
    mipi_csis_s_frame_interval_class[of imx290_probed "\<lparr>numerator = 1, denominator = 120\<rparr>"]
  by (simp add: mipi_csis_s_frame_interval_def Let_def spec_smallest_class_def
        spec_rate_ge_simps fps_exhaust fps_rate_def)

subsection \<open>Format negotiation\<close>

lemma find_format_cases:
  "imx290_find_format c imx290_formats 0 =
     (if c = MEDIA_BUS_FMT_SRGGB10_1X10 then 0
      else if c = MEDIA_BUS_FMT_SRGGB12_1X12 then 1 else 2)"
  by (simp add: imx290_formats_def)

text \<open>The index after the loop and the fallback of lines 1173-1174.\<close>

lemma pick_index:
  "(if length imx290_formats \<le> imx290_find_format c imx290_formats 0 then 0
    else imx290_find_format c imx290_formats 0) =
   (if c = MEDIA_BUS_FMT_SRGGB12_1X12 then 1 else 0)"
  by (simp add: find_format_cases)
     (simp add: imx290_formats_def MEDIA_BUS_FMT_SRGGB10_1X10_def MEDIA_BUS_FMT_SRGGB12_1X12_def)

lemma formats_nth:
  "imx290_formats ! (if b then 1 else 0) =
     (if b then \<lparr>code = MEDIA_BUS_FMT_SRGGB12_1X12, pix_bpp = 12\<rparr>
      else \<lparr>code = MEDIA_BUS_FMT_SRGGB10_1X10, pix_bpp = 10\<rparr>)"
  by (simp add: imx290_formats_def)

lemma modes_ptr_index:
  "m \<in> set (imx290_modes_ptr imx) \<Longrightarrow> unat (link_freq_index m) < 2"
  by (auto simp: imx290_modes_ptr_def imx290_modes_2lanes_def imx290_modes_4lanes_def
        FREQ_INDEX_1080P_def FREQ_INDEX_720P_def split: if_splits)

text \<open>With a mode of the catalogue and a non-zero \<open>bpp\<close> the pixel rate is computed.\<close>

lemma calc_pixel_rate_total:
  assumes "current_mode imx = Some m" "unat (link_freq_index m) < 2" "bpp imx \<noteq> 0"
  shows "\<exists>r. imx290_calc_pixel_rate imx = Some r"
  using assms
  by (simp add: imx290_calc_pixel_rate_def imx290_get_link_freq_def imx290_get_link_freq_index_def
        link_freqs_ptr_cases link_freq_tables Let_def)

lemma calc_pixel_rate_set:
  assumes "unat (link_freq_index m) < 2" "b \<noteq> 0"
  shows "\<exists>r. imx290_calc_pixel_rate
               (imx\<lparr>current_mode := Some m, bpp := b, link_freq := l\<rparr>) = Some r"
  by (rule calc_pixel_rate_total[where m = m]) (simp_all add: assms)

text \<open>
  C10. Let \<open>nearest\<close> answer an entry of the catalogue it is given, as
  \<open>v4l2_find_nearest_size\<close> does. Then for every device and every request
  \<open>imx290_set_fmt\<close> returns 0. The code handed back is \<open>SRGGB12\<close> when that was requested
  and \<open>SRGGB10\<close>, the first format of the catalogue, in every other case: a code that is
  neither of the two is replaced, not rejected. For an active request the device's
  current format is the one handed back and its \<open>bpp\<close> is 12 or 10 accordingly.
\<close>

theorem imx290_set_fmt_substitutes:
  assumes near: "\<And>ms w h. ms \<noteq> [] \<Longrightarrow> nearest ms w h \<in> set ms"
  shows "\<exists>imx' fmt'. imx290_set_fmt nearest imx fmt = Some (0, imx', fmt') \<and>
           fmt_code (format fmt') =
             (if fmt_code (format fmt) = MEDIA_BUS_FMT_SRGGB12_1X12
              then MEDIA_BUS_FMT_SRGGB12_1X12 else MEDIA_BUS_FMT_SRGGB10_1X10) \<and>
           (which fmt = V4L2_SUBDEV_FORMAT_ACTIVE \<longrightarrow>
              current_format imx' = format fmt' \<and>
              bpp imx' = (if fmt_code (format fmt) = MEDIA_BUS_FMT_SRGGB12_1X12 then 12 else 10))"
proof -
  define m where
    "m = nearest (imx290_modes_ptr imx) (fmt_width (format fmt)) (fmt_height (format fmt))"
  define b :: u8 where
    "b = (if fmt_code (format fmt) = MEDIA_BUS_FMT_SRGGB12_1X12 then 12 else 10)"
  have "imx290_modes_ptr imx \<noteq> []"
    by (simp add: imx290_modes_ptr_def imx290_modes_2lanes_def imx290_modes_4lanes_def)
  then have "m \<in> set (imx290_modes_ptr imx)" unfolding m_def by (rule near)
  then have idx: "unat (link_freq_index m) < 2" by (rule modes_ptr_index)
  have b0: "b \<noteq> 0" by (simp add: b_def)
  have bp: "pix_bpp (if fmt_code (format fmt) = MEDIA_BUS_FMT_SRGGB12_1X12
              then \<lparr>code = MEDIA_BUS_FMT_SRGGB12_1X12, pix_bpp = 12\<rparr>
              else \<lparr>code = MEDIA_BUS_FMT_SRGGB10_1X10, pix_bpp = 10\<rparr>) = b"
    by (simp add: b_def)
  have r1: "\<exists>r. imx290_calc_pixel_rate (imx\<lparr>current_mode := Some m, bpp := b\<rparr>) = Some r"
    using calc_pixel_rate_set[OF idx b0, where imx = imx and l = "link_freq imx"] by simp
  have r2: "\<And>l. \<exists>r. imx290_calc_pixel_rate
                    (imx\<lparr>current_mode := Some m, bpp := b, link_freq := l\<rparr>) = Some r"
    using calc_pixel_rate_set[OF idx b0] by simp
  show ?thesis
  proof (cases "which fmt")
    case V4L2_SUBDEV_FORMAT_TRY
    then show ?thesis
      unfolding imx290_set_fmt_def Let_def pick_index formats_nth
      by simp
  next
    case act: V4L2_SUBDEV_FORMAT_ACTIVE
    show ?thesis
    proof (cases "pixel_rate imx")
      case None
      with act show ?thesis
        unfolding imx290_set_fmt_def Let_def pick_index formats_nth
        by (cases "link_freq imx") (simp_all add: b_def)
    next
      case (Some p)
      show ?thesis
      proof (cases "link_freq imx")
        case None
        from r1 obtain r
          where "imx290_calc_pixel_rate (imx\<lparr>current_mode := Some m, bpp := b\<rparr>) = Some r" ..
        with act Some None show ?thesis
          unfolding imx290_set_fmt_def Let_def pick_index formats_nth bp m_def[symmetric]
          by (simp add: b_def)
      next
        case (Some l)
        from r2 obtain r
          where "imx290_calc_pixel_rate (imx\<lparr>current_mode := Some m, bpp := b,
                   link_freq := Some (ucast (link_freq_index m))\<rparr>) = Some r" ..
        with act \<open>pixel_rate imx = Some p\<close> Some show ?thesis
          unfolding imx290_set_fmt_def Let_def pick_index formats_nth bp m_def[symmetric]
          by (simp add: b_def)
      qed
    qed
  qed
qed

text \<open>
  An active request for 640x480 with the code 0x1234 on the probed device, with the first
  catalogue entry taken as nearest: the request succeeds with 1920x1080 in \<open>SRGGB10\<close>.
\<close>

theorem imx290_set_fmt_substitutes_witness:
  "imx290_set_fmt (\<lambda>ms w h. hd ms) imx290_probed
     \<lparr>which = V4L2_SUBDEV_FORMAT_ACTIVE,
      format = \<lparr>fmt_width = 640, fmt_height = 480, fmt_code = 0x1234, fmt_field = 0,
                fmt_colorspace = 0\<rparr>\<rparr>
   = Some (0, imx290_probed,
           \<lparr>which = V4L2_SUBDEV_FORMAT_ACTIVE,
            format = \<lparr>fmt_width = 1920, fmt_height = 1080,
                      fmt_code = MEDIA_BUS_FMT_SRGGB10_1X10,
                      fmt_field = V4L2_FIELD_NONE, fmt_colorspace = V4L2_COLORSPACE_SRGB\<rparr>\<rparr>)"
  using imx290_set_fmt_substitutes
     [where nearest = "\<lambda>ms w h. hd ms" and imx = imx290_probed
        and fmt = "\<lparr>which = V4L2_SUBDEV_FORMAT_ACTIVE,
                   format = \<lparr>fmt_width = 640, fmt_height = 480, fmt_code = 0x1234,
                             fmt_field = 0, fmt_colorspace = 0\<rparr>\<rparr>",
      OF hd_in_set]
  by (simp add: imx290_set_fmt_def Let_def imx290_probed_def imx290_formats_def
        imx290_modes_ptr_def imx290_modes_2lanes_def imx290_calc_pixel_rate_def
        imx290_get_link_freq_def imx290_get_link_freq_index_def imx290_link_freqs_ptr_def
        link_freq_tables FREQ_INDEX_1080P_def MEDIA_BUS_FMT_SRGGB10_1X10_def
        MEDIA_BUS_FMT_SRGGB12_1X12_def)

end
